theory Spec2Isabelle
  imports Complex_Main "HOL-Library.Sublist" "HOL-Library.Char_ord"
begin

chapter \<open>Stream proxy and playback orchestration: a shallow embedding\<close>

text \<open>
  The development follows the TypeScript sources: the edge handler
  \<^verbatim>\<open>api/m3u8-proxy.ts\<close>, the catalogue parser \<^verbatim>\<open>api/parse-m3u.ts\<close>, the helper
  \<^verbatim>\<open>src/lib/urlEncryption.ts\<close>, the component \<^verbatim>\<open>src/components/VideoPlayer.tsx\<close>
  and the page \<^verbatim>\<open>src/pages/EventPlayer.tsx\<close>. All definitions come first, the
  lemmas and theorems about them afterwards.
\<close>

section \<open>JavaScript strings\<close>

text \<open>
  A JavaScript string is modelled by the UTF-8 encoding of its text: a \<^typ>\<open>string\<close>
  whose characters are the bytes. All the markers the sources look for are ASCII, and
  UTF-8 is self-synchronising, so \<^verbatim>\<open>startsWith\<close>, \<^verbatim>\<open>includes\<close>, \<^verbatim>\<open>split\<close> and
  concatenation on the text are the same operations on the bytes.
\<close>

abbreviation NL :: char where "NL \<equiv> CHR 0x0A"
abbreviation CR :: char where "CR \<equiv> CHR 0x0D"
abbreviation DQ :: char where "DQ \<equiv> CHR 0x22"

definition startsWith :: "string \<Rightarrow> string \<Rightarrow> bool" where
  "startsWith s p = prefix p s"

definition endsWith :: "string \<Rightarrow> string \<Rightarrow> bool" where
  "endsWith s p = suffix p s"

text \<open>\<^verbatim>\<open>s.includes(p)\<close>: \<open>p\<close> occurs in \<open>s\<close> at some position.\<close>

fun includesStr :: "string \<Rightarrow> string \<Rightarrow> bool" where
  "includesStr [] p = (p = [])"
| "includesStr (c # cs) p = (prefix p (c # cs) \<or> includesStr cs p)"

text \<open>
  \<^verbatim>\<open>toLowerCase\<close> on the ASCII letters. The sources lower-case a string only to test it
  for ASCII markers afterwards, or after every other character has been replaced.
\<close>

definition isUpper :: "char \<Rightarrow> bool" where
  "isUpper c = (CHR ''A'' \<le> c \<and> c \<le> CHR ''Z'')"

definition isLower :: "char \<Rightarrow> bool" where
  "isLower c = (CHR ''a'' \<le> c \<and> c \<le> CHR ''z'')"

definition isDigit :: "char \<Rightarrow> bool" where
  "isDigit c = (CHR ''0'' \<le> c \<and> c \<le> CHR ''9'')"

definition toLower :: "char \<Rightarrow> char" where
  "toLower c = (if isUpper c then char_of (of_char c + (32::nat)) else c)"

definition toLowerCase :: "string \<Rightarrow> string" where
  "toLowerCase s = map toLower s"

text \<open>\<^verbatim>\<open>s.split(sep)\<close> for a one-character separator, and \<^verbatim>\<open>parts.join(sep)\<close>.\<close>

fun split :: "char \<Rightarrow> string \<Rightarrow> string list" where
  "split sep [] = [[]]"
| "split sep (c # cs) =
     (if c = sep then [] # split sep cs
      else (case split sep cs of [] \<Rightarrow> [[c]] | l # ls \<Rightarrow> (c # l) # ls))"

fun join :: "char \<Rightarrow> string list \<Rightarrow> string" where
  "join sep [] = []"
| "join sep [l] = l"
| "join sep (l # ls) = l @ sep # join sep ls"

text \<open>
  The characters \<^verbatim>\<open>trim()\<close> removes and \<^verbatim>\<open>\s\<close> matches: the ECMAScript white space
  and line terminators, each given by its UTF-8 encoding (TAB, LF, VT, FF, CR, SP,
  U+00A0, U+1680, U+2000 to U+200A, U+2028, U+2029, U+202F, U+205F, U+3000, U+FEFF).
\<close>

definition whiteSpace :: "string list" where
  "whiteSpace =
   [[CHR 0x09], [CHR 0x0A], [CHR 0x0B], [CHR 0x0C], [CHR 0x0D], [CHR 0x20],
    [CHR 0xC2, CHR 0xA0],
    [CHR 0xE1, CHR 0x9A, CHR 0x80],
    [CHR 0xE2, CHR 0x80, CHR 0x80], [CHR 0xE2, CHR 0x80, CHR 0x81],
    [CHR 0xE2, CHR 0x80, CHR 0x82], [CHR 0xE2, CHR 0x80, CHR 0x83],
    [CHR 0xE2, CHR 0x80, CHR 0x84], [CHR 0xE2, CHR 0x80, CHR 0x85],
    [CHR 0xE2, CHR 0x80, CHR 0x86], [CHR 0xE2, CHR 0x80, CHR 0x87],
    [CHR 0xE2, CHR 0x80, CHR 0x88], [CHR 0xE2, CHR 0x80, CHR 0x89],
    [CHR 0xE2, CHR 0x80, CHR 0x8A],
    [CHR 0xE2, CHR 0x80, CHR 0xA8], [CHR 0xE2, CHR 0x80, CHR 0xA9],
    [CHR 0xE2, CHR 0x80, CHR 0xAF],
    [CHR 0xE2, CHR 0x81, CHR 0x9F],
    [CHR 0xE3, CHR 0x80, CHR 0x80],
    [CHR 0xEF, CHR 0xBB, CHR 0xBF]]"

text \<open>Drop leading occurrences of the given encodings for as long as one is there.\<close>

function stripLeading :: "string list \<Rightarrow> string \<Rightarrow> string" where
  "stripLeading ws s =
     (case find (\<lambda>w. w \<noteq> [] \<and> prefix w s) ws of
        None \<Rightarrow> s
      | Some w \<Rightarrow> stripLeading ws (drop (length w) s))"
  by pat_completeness auto
termination
proof (relation "measure (\<lambda>(ws, s). length s)")
  show "wf (measure (\<lambda>(ws, s). length s))" by simp
next
  fix ws :: "string list" and s w :: string
  assume "find (\<lambda>w. w \<noteq> [] \<and> prefix w s) ws = Some w"
  then have "w \<noteq> []" and "prefix w s"
    by (auto simp: find_Some_iff)
  then have "length s - length w < length s"
    by (cases w) (auto dest: prefix_length_le)
  then show "((ws, drop (length w) s), (ws, s)) \<in> measure (\<lambda>(ws, s). length s)"
    by simp
qed

definition trimStart :: "string \<Rightarrow> string" where
  "trimStart s = stripLeading whiteSpace s"

definition trimEnd :: "string \<Rightarrow> string" where
  "trimEnd s = rev (stripLeading (map rev whiteSpace) (rev s))"

definition trim :: "string \<Rightarrow> string" where
  "trim s = trimEnd (trimStart s)"

text \<open>
  \<^verbatim>\<open>encodeURIComponent\<close>: the unreserved characters stay, every other byte of the
  UTF-8 encoding becomes \<^verbatim>\<open>%XX\<close> with upper-case hexadecimal digits.
\<close>

definition hexDigit :: "nat \<Rightarrow> char" where
  "hexDigit n = ''0123456789ABCDEF'' ! (n mod 16)"

definition uriUnreserved :: "char \<Rightarrow> bool" where
  "uriUnreserved c = (isUpper c \<or> isLower c \<or> isDigit c \<or> c \<in> set ''-_.!~*'()'')"

definition percentEncode :: "char \<Rightarrow> string" where
  "percentEncode c =
     [CHR ''%'', hexDigit (of_char c div 16), hexDigit (of_char c mod 16)]"

definition encodeURIComponent :: "string \<Rightarrow> string" where
  "encodeURIComponent s =
     concat (map (\<lambda>c. if uriUnreserved c then [c] else percentEncode c) s)"

text \<open>The decimal digits of a number, as a template literal prints it.\<close>

fun decimal :: "nat \<Rightarrow> string" where
  "decimal n = (if n < 10 then [hexDigit n] else decimal (n div 10) @ [hexDigit (n mod 10)])"

text \<open>
  A value of type \<^verbatim>\<open>string | null\<close> is an option. It is truthy when it is a string that
  is not empty; \<^verbatim>\<open>v || ''\<close> is the string, or the empty string for \<^verbatim>\<open>null\<close>.
\<close>

definition truthy :: "string option \<Rightarrow> bool" where
  "truthy v = (case v of None \<Rightarrow> False | Some s \<Rightarrow> s \<noteq> [])"

definition orEmpty :: "string option \<Rightarrow> string" where
  "orEmpty v = (case v of None \<Rightarrow> [] | Some s \<Rightarrow> s)"

section \<open>The manifest proxy (\<^verbatim>\<open>m3u8-proxy.ts\<close>)\<close>

text \<open>
  The fields the handler reads of a parsed \<^verbatim>\<open>URL\<close> object: \<^verbatim>\<open>protocol\<close> (with its
  colon), \<^verbatim>\<open>host\<close>, \<^verbatim>\<open>origin\<close> and \<^verbatim>\<open>pathname\<close>.
\<close>

record url_obj =
  url_protocol :: string
  url_host :: string
  url_origin :: string
  url_pathname :: string

subsection \<open>Rewriting a playlist\<close>

text \<open>\<^verbatim>\<open>resolveUrl(target, baseUrl, basePath)\<close>, the four tiers in the order of the source.\<close>

definition resolveUrl :: "string \<Rightarrow> url_obj \<Rightarrow> string \<Rightarrow> string" where
  "resolveUrl target baseUrl basePath =
     (if startsWith target ''http://'' \<or> startsWith target ''https://'' then target
      else if startsWith target ''//'' then url_protocol baseUrl @ target
      else if startsWith target ''/'' then url_protocol baseUrl @ ''//'' @ url_host baseUrl @ target
      else url_protocol baseUrl @ ''//'' @ url_host baseUrl @ basePath @ target)"

text \<open>
  \<^verbatim>\<open>s.replace(/URI="([^"]+)"/g, (match, uri) => f(uri))\<close>: from left to right, every
  \<^verbatim>\<open>URI="\<close> that is followed by at least one character other than a quote and then by
  a quote is replaced, together with the value and the closing quote, by \<open>f\<close> of the
  value; the search goes on after the closing quote.
\<close>

function replaceURI :: "(string \<Rightarrow> string) \<Rightarrow> string \<Rightarrow> string" where
  "replaceURI f [] = []"
| "replaceURI f (c # cs) =
     (let rest = drop 5 (c # cs);
          uri = takeWhile (\<lambda>x. x \<noteq> DQ) rest;
          after = dropWhile (\<lambda>x. x \<noteq> DQ) rest
      in if prefix (''URI='' @ [DQ]) (c # cs) \<and> uri \<noteq> [] \<and> after \<noteq> []
         then f uri @ replaceURI f (tl after)
         else c # replaceURI f cs)"
  by pat_completeness auto
termination
proof (relation "measure (\<lambda>(f, s). length s)")
  show "wf (measure (\<lambda>(f, s). length s))" by simp
next
  fix f :: "string \<Rightarrow> string" and c :: char and cs x xa xb :: string
  assume "x = drop 5 (c # cs)" and "xb = dropWhile (\<lambda>x. x \<noteq> DQ) x"
  then have "length (tl xb) \<le> length cs"
    using length_dropWhile_le [of "\<lambda>x. x \<noteq> DQ" "drop 5 (c # cs)"] by simp
  then show "((f, tl xb), (f, c # cs)) \<in> measure (\<lambda>(f, s). length s)"
    by simp
next
  fix f :: "string \<Rightarrow> string" and c :: char and cs :: string
  show "((f, cs), (f, c # cs)) \<in> measure (\<lambda>(f, s). length s)" by simp
qed

text \<open>
  \<^verbatim>\<open>pathname.substring(0, pathname.lastIndexOf('/') + 1)\<close>; \<^verbatim>\<open>lastIndexOf\<close> is \<open>-1\<close> when
  the character does not occur.
\<close>

definition lastIndexOf :: "string \<Rightarrow> char \<Rightarrow> int" where
  "lastIndexOf s c =
     (if c \<in> set s then int (length s) - 1 - int (length (takeWhile (\<lambda>x. x \<noteq> c) (rev s)))
      else - 1)"

definition substring0 :: "string \<Rightarrow> int \<Rightarrow> string" where
  "substring0 s n = take (nat n) s"

definition basePathOf :: "url_obj \<Rightarrow> string" where
  "basePathOf baseUrl =
     substring0 (url_pathname baseUrl) (lastIndexOf (url_pathname baseUrl) (CHR ''/'') + 1)"

text \<open>The proxied URL of an absolute URL, \<open>u\<close> being the URL of the request.\<close>

definition proxiedUrlOf :: "url_obj \<Rightarrow> string \<Rightarrow> string" where
  "proxiedUrlOf u absoluteUrl =
     url_origin u @ url_pathname u @ ''?url='' @ encodeURIComponent absoluteUrl"

text \<open>The function mapped over the lines of the playlist.\<close>

definition rewriteLine :: "url_obj \<Rightarrow> url_obj \<Rightarrow> string \<Rightarrow> string \<Rightarrow> string" where
  "rewriteLine u baseUrl basePath line =
     (let trimmedLine = trim line in
      if trimmedLine = [] \<or> startsWith trimmedLine ''#EXT'' then
        (if includesStr trimmedLine (''URI='' @ [DQ]) then
           replaceURI
             (\<lambda>uri. ''URI='' @ [DQ] @ proxiedUrlOf u (resolveUrl uri baseUrl basePath) @ [DQ])
             trimmedLine
         else trimmedLine)
      else if \<not> startsWith trimmedLine ''#'' then
        proxiedUrlOf u (resolveUrl trimmedLine baseUrl basePath)
      else trimmedLine)"

definition rewritePlaylist :: "url_obj \<Rightarrow> url_obj \<Rightarrow> string \<Rightarrow> string" where
  "rewritePlaylist u baseUrl text =
     join NL (map (rewriteLine u baseUrl (basePathOf baseUrl)) (split NL text))"

subsection \<open>The handler\<close>

text \<open>The condition under which the response is read as text and rewritten.\<close>

definition isPlaylist :: "string \<Rightarrow> string \<Rightarrow> bool" where
  "isPlaylist contentType targetUrl =
     (includesStr contentType ''mpegurl'' \<or>
      includesStr contentType ''m3u8'' \<or>
      includesStr contentType ''m3u'' \<or>
      includesStr contentType ''vnd.apple.mpegurl'' \<or>
      includesStr (toLowerCase targetUrl) ''.m3u8'' \<or>
      includesStr (toLowerCase targetUrl) ''.m3u'')"

text \<open>
  A specification of ``only URI values change'': the second string arises from the
  first by replacing the values of some quoted \<^verbatim>\<open>URI="..."\<close> attributes by their
  image under \<open>g\<close>, every other character staying where it is.
\<close>

inductive uriSubst :: "(string \<Rightarrow> string) \<Rightarrow> string \<Rightarrow> string \<Rightarrow> bool"
  for g :: "string \<Rightarrow> string" where
  uriSubst_Nil: "uriSubst g [] []"
| uriSubst_Keep: "uriSubst g xs ys \<Longrightarrow> uriSubst g (c # xs) (c # ys)"
| uriSubst_URI: "uriSubst g xs ys \<Longrightarrow> v \<noteq> [] \<Longrightarrow> DQ \<notin> set v \<Longrightarrow>
     uriSubst g (''URI='' @ [DQ] @ v @ [DQ] @ xs) (''URI='' @ [DQ] @ g v @ [DQ] @ ys)"

text \<open>
  \<^verbatim>\<open>ALLOWED_ORIGINS\<close> is read from the environment: the comma-separated entries,
  trimmed, or the one default origin when the variable is unset or empty. The list is
  never empty, so its first element exists.
\<close>

definition allowedOrigins :: "string option \<Rightarrow> string list" where
  "allowedOrigins env =
     (case env of
        None \<Rightarrow> [''https://imshep.vercel.app'']
      | Some e \<Rightarrow> if e = [] then [''https://imshep.vercel.app'']
                  else map trim (split (CHR '','') e))"

definition getCorsHeaders :: "string list \<Rightarrow> string option \<Rightarrow> (string \<times> string) list" where
  "getCorsHeaders ALLOWED_ORIGINS origin =
     (let allowedOrigin =
            (case origin of
               None \<Rightarrow> hd ALLOWED_ORIGINS
             | Some og \<Rightarrow> if og \<noteq> [] \<and> og \<in> set ALLOWED_ORIGINS then og
                          else hd ALLOWED_ORIGINS)
      in [(''Access-Control-Allow-Origin'', allowedOrigin),
          (''Access-Control-Allow-Methods'', ''GET, OPTIONS''),
          (''Access-Control-Allow-Headers'', ''Content-Type, Range, Authorization''),
          (''Access-Control-Max-Age'', ''86400''),
          (''Access-Control-Expose-Headers'',
             ''Content-Length, Content-Type, Content-Range, Accept-Ranges''),
          (''Access-Control-Allow-Credentials'', ''true'')])"

text \<open>
  The upstream response as the handler sees it: \<^verbatim>\<open>ok\<close>, \<^verbatim>\<open>status\<close>, \<^verbatim>\<open>statusText\<close>,
  \<^verbatim>\<open>headers.get\<close>, the final URL after redirects (parsed) and the body. \<^verbatim>\<open>fetch\<close>
  resolves with a response or rejects with a message; it is a parameter of the model,
  as is the origin of \<^verbatim>\<open>new URL(targetUrl)\<close>, \<open>None\<close> when that constructor throws.
\<close>

record upstream =
  up_ok :: bool
  up_status :: nat
  up_statusText :: string
  up_header :: "string \<Rightarrow> string option"
  up_url :: url_obj
  up_body :: string

datatype fetched = Rejected string | Resolved upstream

record platform =
  fetch :: "string \<Rightarrow> (string \<times> string) list \<Rightarrow> fetched"
  urlOrigin :: "string \<Rightarrow> string option"

text \<open>
  The request: its method, \<^verbatim>\<open>headers.get\<close>, its parsed URL and the value of
  \<^verbatim>\<open>url.searchParams.get('url')\<close>.
\<close>

record request =
  req_method :: string
  req_header :: "string \<Rightarrow> string option"
  req_url :: url_obj
  req_target :: "string option"

text \<open>
  The response: status, headers in the order they are written, and the body, which is
  empty, one of the JSON error objects, the rewritten playlist text or the upstream
  stream passed through.
\<close>

datatype proxy_body =
    Null
  | UnauthorizedOrigin "string list"
  | ErrorJson string
  | ErrorDetails string string
  | Text string
  | Stream string

record response =
  res_status :: nat
  res_headers :: "(string \<times> string) list"
  res_body :: proxy_body

text \<open>\<^verbatim>\<open>origin && !ALLOWED_ORIGINS.includes(origin)\<close>\<close>

definition originRejected :: "string list \<Rightarrow> string option \<Rightarrow> bool" where
  "originRejected ALLOWED_ORIGINS origin = (truthy origin \<and> orEmpty origin \<notin> set ALLOWED_ORIGINS)"

text \<open>The headers of the upstream fetch and of a passed-through response.\<close>

definition upstreamHeaders :: "platform \<Rightarrow> request \<Rightarrow> string \<Rightarrow> (string \<times> string) list" where
  "upstreamHeaders pf request targetUrl =
     [(''User-Agent'', ''Mozilla/5.0 (Windows NT 10.0; Win64; x64) AppleWebKit/537.36 (KHTML, like Gecko) Chrome/120.0.0.0 Safari/537.36''),
      (''Accept'', ''*/*''),
      (''Accept-Language'', ''en-US,en;q=0.9''),
      (''Accept-Encoding'', ''gzip, deflate, br''),
      (''Connection'', ''keep-alive'')]
     @ (if truthy (req_header request ''range'')
        then [(''Range'', orEmpty (req_header request ''range''))] else [])
     @ (case urlOrigin pf targetUrl of
          None \<Rightarrow> []
        | Some org \<Rightarrow> [(''Referer'', org @ ''/''), (''Origin'', org)])"

definition passThroughHeaders :: "upstream \<Rightarrow> string \<Rightarrow> (string \<times> string) list" where
  "passThroughHeaders response contentType =
     (if contentType \<noteq> [] then [(''Content-Type'', contentType)] else [])
     @ (if truthy (up_header response ''content-length'')
        then [(''Content-Length'', orEmpty (up_header response ''content-length''))] else [])
     @ (if truthy (up_header response ''content-range'')
        then [(''Content-Range'', orEmpty (up_header response ''content-range''))] else [])
     @ (if truthy (up_header response ''accept-ranges'')
        then [(''Accept-Ranges'', orEmpty (up_header response ''accept-ranges''))] else [])
     @ (if includesStr contentType ''video'' \<or> includesStr contentType ''octet-stream''
        then [(''Cache-Control'', ''public, max-age=31536000, immutable'')]
        else [(''Cache-Control'', ''public, max-age=60'')])"

definition handler :: "platform \<Rightarrow> string option \<Rightarrow> request \<Rightarrow> response" where
  "handler pf env request =
     (let ALLOWED_ORIGINS = allowedOrigins env;
          origin = req_header request ''origin'';
          url = req_url request;
          cors = getCorsHeaders ALLOWED_ORIGINS origin;
          json = (''Content-Type'', ''application/json'')
      in
      if req_method request = ''OPTIONS'' then
        \<lparr>res_status = 204, res_headers = cors, res_body = Null\<rparr>
      else if originRejected ALLOWED_ORIGINS origin then
        \<lparr>res_status = 403, res_headers = json # cors,
         res_body = UnauthorizedOrigin ALLOWED_ORIGINS\<rparr>
      else if \<not> truthy (req_target request) then
        \<lparr>res_status = 400, res_headers = json # cors,
         res_body = ErrorJson ''Missing url parameter''\<rparr>
      else
        (let targetUrl = orEmpty (req_target request) in
         case fetch pf targetUrl (upstreamHeaders pf request targetUrl) of
           Rejected message \<Rightarrow>
             \<lparr>res_status = 500, res_headers = json # cors,
              res_body = ErrorDetails ''Proxy failed to fetch stream'' message\<rparr>
         | Resolved response \<Rightarrow>
             if \<not> up_ok response then
               \<lparr>res_status = up_status response, res_headers = json # cors,
                res_body = ErrorDetails (''Stream unavailable: '' @ decimal (up_status response))
                             (up_statusText response)\<rparr>
             else
               (let contentType = orEmpty (up_header response ''content-type'') in
                if isPlaylist contentType targetUrl then
                  \<lparr>res_status = 200,
                   res_headers =
                     [(''Content-Type'', ''application/vnd.apple.mpegurl''),
                      (''Cache-Control'', ''no-cache, no-store, must-revalidate''),
                      (''Pragma'', ''no-cache''),
                      (''Expires'', ''0'')] @ cors,
                   res_body = Text (rewritePlaylist url (up_url response) (up_body response))\<rparr>
                else
                  \<lparr>res_status = up_status response,
                   res_headers = cors @ passThroughHeaders response contentType,
                   res_body = Stream (up_body response)\<rparr>)))"

text \<open>
  Example values: the proxy's own URL, the URL of a playlist, a playlist with CRLF
  line ends, and a request for a target whose upstream answers with a transport-stream
  content type.
\<close>

definition exProxy :: url_obj where
  "exProxy = \<lparr>url_protocol = ''https:'', url_host = ''p.example'',
               url_origin = ''https://p.example'', url_pathname = ''/proxy''\<rparr>"

definition exBase :: url_obj where
  "exBase = \<lparr>url_protocol = ''https:'', url_host = ''host'',
             url_origin = ''https://host'', url_pathname = ''/hls/index.m3u8''\<rparr>"

definition exUpstream :: upstream where
  "exUpstream =
     \<lparr>up_ok = True, up_status = 200, up_statusText = ''OK'',
      up_header = [''content-type'' \<mapsto> ''video/mp2t''],
      up_url = exBase, up_body = ''seg0.ts''\<rparr>"

definition exPlatform :: platform where
  "exPlatform = \<lparr>fetch = (\<lambda>target headers. Resolved exUpstream), 
                  urlOrigin = (\<lambda>target. Some ''https://host'')\<rparr>"

definition exRequest :: "string \<Rightarrow> request" where
  "exRequest target =
     \<lparr>req_method = ''GET'', req_header = Map.empty, req_url = exProxy,
      req_target = Some target\<rparr>"

definition exPlaylist :: string where
  "exPlaylist = ''#EXTM3U'' @ [CR, NL] @ ''#EXT-X-KEY:METHOD=AES-128,URI='' @ [DQ] @ ''key.bin''
     @ [DQ] @ [CR, NL] @ ''seg0.ts'' @ [CR, NL]"

section \<open>Percent-decoding and URL search parameters\<close>

text \<open>
  A thrown value is an \<^verbatim>\<open>Error\<close> object with its message, or something else; a call
  returns or throws.
\<close>

datatype thrown = ErrorObject string | OtherThrown

datatype 'a attempt = Returns 'a | Throws thrown

definition hexValue :: "char \<Rightarrow> nat option" where
  "hexValue c =
     (if isDigit c then Some (of_char c - 48)
      else if CHR ''A'' \<le> c \<and> c \<le> CHR ''F'' then Some (of_char c - 55)
      else if CHR ''a'' \<le> c \<and> c \<le> CHR ''f'' then Some (of_char c - 87)
      else None)"

definition hexByte :: "char \<Rightarrow> char \<Rightarrow> char option" where
  "hexByte h l =
     (case (hexValue h, hexValue l) of
        (Some a, Some b) \<Rightarrow> Some (char_of (16 * a + b))
      | _ \<Rightarrow> None)"

text \<open>
  The lead bytes of well-formed UTF-8 with the number of continuation bytes that
  follow and the bounds of the first of them; the later ones lie in \<open>80..BF\<close>.
\<close>

definition leadInfo :: "char \<Rightarrow> (nat \<times> nat \<times> nat) option" where
  "leadInfo c =
     (let b = (of_char c :: nat) in
      if 0xC2 \<le> b \<and> b \<le> 0xDF then Some (1, 0x80, 0xBF)
      else if b = 0xE0 then Some (2, 0xA0, 0xBF)
      else if 0xE1 \<le> b \<and> b \<le> 0xEC then Some (2, 0x80, 0xBF)
      else if b = 0xED then Some (2, 0x80, 0x9F)
      else if 0xEE \<le> b \<and> b \<le> 0xEF then Some (2, 0x80, 0xBF)
      else if b = 0xF0 then Some (3, 0x90, 0xBF)
      else if 0xF1 \<le> b \<and> b \<le> 0xF3 then Some (3, 0x80, 0xBF)
      else if b = 0xF4 then Some (3, 0x80, 0x8F)
      else None)"

definition inBounds :: "nat \<times> nat \<Rightarrow> char \<Rightarrow> bool" where
  "inBounds bounds c = (fst bounds \<le> of_char c \<and> (of_char c :: nat) \<le> snd bounds)"

definition isAscii :: "char \<Rightarrow> bool" where
  "isAscii c = ((of_char c :: nat) < 0x80)"

subsection \<open>\<^verbatim>\<open>decodeURIComponent\<close>\<close>

text \<open>
  The string is read as literal characters and \<^verbatim>\<open>%XX\<close> escapes; a \<^verbatim>\<open>%\<close> without two
  hexadecimal digits after it is malformed. An escaped byte below \<open>80\<close> is a
  character; an escaped lead byte must be followed by escapes of its continuation
  bytes, the whole a well-formed UTF-8 sequence. Anything else throws \<^verbatim>\<open>URIError\<close>.
\<close>

datatype uri_token = Literal char | Escape char | Malformed

fun uriTokens :: "string \<Rightarrow> uri_token list" where
  "uriTokens (c # h # l # rest) =
     (if c = CHR ''%'' then
        (case hexByte h l of
           Some b \<Rightarrow> Escape b # uriTokens rest
         | None \<Rightarrow> [Malformed])
      else Literal c # uriTokens (h # l # rest))"
| "uriTokens (c # rest) =
     (if c = CHR ''%'' then [Malformed] else Literal c # uriTokens rest)"
| "uriTokens [] = []"

definition URIError :: thrown where
  "URIError = ErrorObject ''URI malformed''"

definition consChar :: "char \<Rightarrow> string attempt \<Rightarrow> string attempt" where
  "consChar c r = (case r of Returns s \<Rightarrow> Returns (c # s) | Throws e \<Rightarrow> Throws e)"

fun decodeTokens :: "nat \<Rightarrow> nat \<times> nat \<Rightarrow> uri_token list \<Rightarrow> string attempt" where
  "decodeTokens 0 bounds [] = Returns []"
| "decodeTokens (Suc k) bounds [] = Throws URIError"
| "decodeTokens 0 bounds (Literal c # ts) = consChar c (decodeTokens 0 bounds ts)"
| "decodeTokens 0 bounds (Escape b # ts) =
     (if isAscii b then consChar b (decodeTokens 0 bounds ts)
      else (case leadInfo b of
              None \<Rightarrow> Throws URIError
            | Some (n, lo, hi) \<Rightarrow> consChar b (decodeTokens n (lo, hi) ts)))"
| "decodeTokens (Suc k) bounds (Escape b # ts) =
     (if inBounds bounds b then consChar b (decodeTokens k (0x80, 0xBF) ts)
      else Throws URIError)"
| "decodeTokens k bounds (t # ts) = Throws URIError"

definition decodeURIComponent :: "string \<Rightarrow> string attempt" where
  "decodeURIComponent s = decodeTokens 0 (0x80, 0xBF) (uriTokens s)"

subsection \<open>\<^verbatim>\<open>URLSearchParams\<close>\<close>

text \<open>
  The \<^verbatim>\<open>application/x-www-form-urlencoded\<close> parser: the pairs are separated by \<^verbatim>\<open>&\<close>,
  empty pairs are skipped, name and value are separated by the first \<^verbatim>\<open>=\<close>, a \<^verbatim>\<open>+\<close>
  is a space, and \<^verbatim>\<open>%XX\<close> is a byte where two hexadecimal digits follow the \<^verbatim>\<open>%\<close> (a
  \<^verbatim>\<open>%\<close> stays otherwise). The bytes are then decoded as UTF-8, every ill-formed
  sequence becoming U+FFFD.
\<close>

fun percentDecode :: "string \<Rightarrow> string" where
  "percentDecode (c # h # l # rest) =
     (if c = CHR ''%'' then
        (case hexByte h l of
           Some b \<Rightarrow> b # percentDecode rest
         | None \<Rightarrow> c # percentDecode (h # l # rest))
      else c # percentDecode (h # l # rest))"
| "percentDecode (c # rest) = c # percentDecode rest"
| "percentDecode [] = []"

definition replacementChar :: string where
  "replacementChar = [CHR 0xEF, CHR 0xBF, CHR 0xBD]"

fun utf8Decode :: "string \<Rightarrow> nat \<Rightarrow> nat \<times> nat \<Rightarrow> string \<Rightarrow> string" where
  "utf8Decode pending 0 bounds [] = []"
| "utf8Decode pending (Suc k) bounds [] = replacementChar"
| "utf8Decode pending 0 bounds (b # bs) =
     (if isAscii b then b # utf8Decode [] 0 bounds bs
      else (case leadInfo b of
              None \<Rightarrow> replacementChar @ utf8Decode [] 0 bounds bs
            | Some (n, lo, hi) \<Rightarrow> utf8Decode [b] n (lo, hi) bs))"
| "utf8Decode pending (Suc k) bounds (b # bs) =
     (if inBounds bounds b then
        (if k = 0 then pending @ b # utf8Decode [] 0 bounds bs
         else utf8Decode (pending @ [b]) k (0x80, 0xBF) bs)
      else replacementChar @ utf8Decode [] 0 bounds (b # bs))"

definition formDecode :: "string \<Rightarrow> string" where
  "formDecode s =
     utf8Decode [] 0 (0x80, 0xBF)
       (percentDecode (map (\<lambda>c. if c = CHR ''+'' then CHR '' '' else c) s))"

definition parsePair :: "string \<Rightarrow> string \<times> string" where
  "parsePair s =
     (formDecode (takeWhile (\<lambda>c. c \<noteq> CHR ''='') s),
      formDecode (drop 1 (dropWhile (\<lambda>c. c \<noteq> CHR ''='') s)))"

definition parseQuery :: "string \<Rightarrow> (string \<times> string) list" where
  "parseQuery q = map parsePair (filter (\<lambda>s. s \<noteq> []) (split (CHR ''&'') q))"

text \<open>\<^verbatim>\<open>new URLSearchParams(init)\<close> for a string drops one leading \<^verbatim>\<open>?\<close>.\<close>

definition URLSearchParams :: "string \<Rightarrow> (string \<times> string) list" where
  "URLSearchParams init = parseQuery (if startsWith init ''?'' then drop 1 init else init)"

text \<open>\<^verbatim>\<open>params.get(name)\<close>: the value of the first pair of that name, or \<^verbatim>\<open>null\<close>.\<close>

definition paramsGet :: "(string \<times> string) list \<Rightarrow> string \<Rightarrow> string option" where
  "paramsGet params name = map_of params name"

text \<open>
  The query of \<^verbatim>\<open>new URL(input, base)\<close> for an \<^verbatim>\<open>http(s)\<close> base without query. The
  parser strips leading and trailing C0 controls and spaces from the input and removes
  every tab and newline. An input without scheme and without authority is a relative
  reference, its parse cannot fail, and its query is what stands between the first
  \<^verbatim>\<open>?\<close> and the first \<^verbatim>\<open>#\<close>; the percent-encoding the parser applies to a query is
  undone by the form decoding above. Inputs with a scheme or an authority need the
  host parser and are left out of the model: \<open>NotCovered\<close>.
\<close>

datatype 'a covered = Covered 'a | NotCovered

definition isC0OrSpace :: "char \<Rightarrow> bool" where
  "isC0OrSpace c = ((of_char c :: nat) \<le> 0x20)"

definition urlInput :: "string \<Rightarrow> string" where
  "urlInput s =
     filter (\<lambda>c. c \<notin> set [CHR 0x09, CHR 0x0A, CHR 0x0D])
       (rev (dropWhile isC0OrSpace (rev (dropWhile isC0OrSpace s))))"

definition isSchemeChar :: "char \<Rightarrow> bool" where
  "isSchemeChar c = (isUpper c \<or> isLower c \<or> isDigit c \<or> c \<in> set ''+-.'')"

definition hasScheme :: "string \<Rightarrow> bool" where
  "hasScheme s =
     (case s of
        [] \<Rightarrow> False
      | c # cs \<Rightarrow> (isUpper c \<or> isLower c)
                 \<and> startsWith (dropWhile isSchemeChar cs) '':'')"

definition isSlash :: "char \<Rightarrow> bool" where
  "isSlash c = (c = CHR ''/'' \<or> c = CHR 0x5C)"

definition hasAuthority :: "string \<Rightarrow> bool" where
  "hasAuthority s = (case s of c # d # _ \<Rightarrow> isSlash c \<and> isSlash d | _ \<Rightarrow> False)"

definition urlSearchParams :: "string \<Rightarrow> (string \<times> string) list covered" where
  "urlSearchParams input =
     (let s = urlInput input;
          beforeFragment = takeWhile (\<lambda>c. c \<noteq> CHR ''#'') s
      in if hasScheme s \<or> hasAuthority s then NotCovered
         else Covered (parseQuery (drop 1 (dropWhile (\<lambda>c. c \<noteq> CHR ''?'') beforeFragment))))"

section \<open>JavaScript numbers\<close>

text \<open>
  A number is a finite value, one of the two infinities or NaN. Comparisons and the
  special values follow IEEE 754 as ECMAScript has it; finite arithmetic is exact (a
  real number, no rounding and no overflow) and the two zeros are one.
\<close>

datatype jsnum = Num real | PosInf | NegInf | NaN

fun isFinite :: "jsnum \<Rightarrow> bool" where
  "isFinite (Num x) = True"
| "isFinite _ = False"

fun isNaN :: "jsnum \<Rightarrow> bool" where
  "isNaN NaN = True"
| "isNaN _ = False"

text \<open>\<^verbatim>\<open>a < b\<close>, and from it \<^verbatim>\<open>a > b\<close> and \<^verbatim>\<open>a <= b\<close>; every comparison with NaN is false.\<close>

fun js_less :: "jsnum \<Rightarrow> jsnum \<Rightarrow> bool" where
  "js_less NaN b = False"
| "js_less a NaN = False"
| "js_less (Num x) (Num y) = (x < y)"
| "js_less (Num x) PosInf = True"
| "js_less (Num x) NegInf = False"
| "js_less PosInf b = False"
| "js_less NegInf NegInf = False"
| "js_less NegInf b = True"

definition js_greater :: "jsnum \<Rightarrow> jsnum \<Rightarrow> bool" where
  "js_greater a b = js_less b a"











section \<open>The timeline of the video player\<close>

text \<open>
  \<^verbatim>\<open>getTimeStats\<close> reads the media element (\<^verbatim>\<open>currentTime\<close>, \<^verbatim>\<open>duration\<close>, the
  \<^verbatim>\<open>seekable\<close> time ranges), the tag \<^verbatim>\<open>playerTypeRef.current\<close> and, for the Shaka
  player, the result of \<^verbatim>\<open>seekRange()\<close>, a call that may throw.
\<close>

record time_range =
  range_start :: jsnum
  range_end :: jsnum

record shaka_player =
  seekRange :: "time_range option attempt"

record video_element =
  video_currentTime :: jsnum
  video_duration :: jsnum
  video_seekable :: "time_range list"

datatype player_type = HlsPlayer | ShakaPlayer | NativePlayer

record time_stats =
  currentTime :: jsnum
  duration :: jsnum
  startTime :: jsnum
  isLive :: bool

text \<open>
  The two strategies, as the triple (start, duration, live) they leave behind. The
  Shaka branch assigns the start before it looks at the end; a throw inside either
  \<^verbatim>\<open>try\<close> is swallowed and leaves the values as they were then.
\<close>

definition shakaStrategy :: "shaka_player \<Rightarrow> jsnum \<Rightarrow> bool \<Rightarrow> jsnum \<times> jsnum \<times> bool" where
  "shakaStrategy player dur live =
     (case seekRange player of
        Throws e \<Rightarrow> (Num 0, dur, live)
      | Returns None \<Rightarrow> (Num 0, dur, live)
      | Returns (Some rng) \<Rightarrow>
          if isFinite (range_end rng) \<and> js_greater (range_end rng) (Num 0)
          then (range_start rng, range_end rng, False)
          else (range_start rng, dur, live))"

definition nativeStrategy :: "time_range list \<Rightarrow> jsnum \<Rightarrow> bool \<Rightarrow> jsnum \<times> jsnum \<times> bool" where
  "nativeStrategy seekable dur live =
     (let start = range_start (hd seekable); endTime = range_end (last seekable)
      in if isFinite endTime \<and> js_greater endTime (Num 0) then (start, endTime, False)
         else (start, dur, live))"

definition getTimeStats ::
  "player_type option \<Rightarrow> shaka_player option \<Rightarrow> video_element option \<Rightarrow> time_stats" where
  "getTimeStats playerType shakaPlayerRef videoRef =
     (case videoRef of
        None \<Rightarrow> \<lparr>currentTime = Num 0, duration = Num 0, startTime = Num 0, isLive = False\<rparr>
      | Some video \<Rightarrow>
          (let live = \<not> isFinite (video_duration video);
               (start, dur, live') =
                 (case (playerType, shakaPlayerRef) of
                    (Some ShakaPlayer, Some player) \<Rightarrow>
                      shakaStrategy player (video_duration video) live
                  | _ \<Rightarrow>
                      if video_seekable video \<noteq> []
                      then nativeStrategy (video_seekable video) (video_duration video) live
                      else (Num 0, video_duration video, live))
           in \<lparr>currentTime = video_currentTime video,
               duration = (if \<not> isFinite dur \<or> isNaN dur then Num 0 else dur),
               startTime = (if \<not> isFinite start \<or> js_less start (Num 0) then Num 0 else start),
               isLive = live'\<rparr>))"



text \<open>
  Example values: a live stream with a seekable window, a Shaka player with a seek
  range, one that reports the empty range from 0 to 0, and the state of a recording.
\<close>

definition exLiveVideo :: video_element where
  "exLiveVideo = \<lparr>video_currentTime = Num 130, video_duration = PosInf,
                  video_seekable = [\<lparr>range_start = Num (- 5), range_end = Num 120\<rparr>]\<rparr>"

definition exShaka :: shaka_player where
  "exShaka = \<lparr>seekRange = Returns (Some \<lparr>range_start = Num 100, range_end = Num 160\<rparr>)\<rparr>"

definition exIdleShaka :: shaka_player where
  "exIdleShaka = \<lparr>seekRange = Returns (Some \<lparr>range_start = Num 0, range_end = Num 0\<rparr>)\<rparr>"


section \<open>Initialisation and error handling of the video player\<close>

subsection \<open>\<^verbatim>\<open>detectStreamType\<close>\<close>

text \<open>
  \<^verbatim>\<open>url.split('?|')\<close> is destructured into its first two parts: the text before the
  first separator, and the text between the first and the second one (or the end).
\<close>

fun beforeSep :: "string \<Rightarrow> string \<Rightarrow> string" where
  "beforeSep sep [] = []"
| "beforeSep sep (c # cs) = (if prefix sep (c # cs) then [] else c # beforeSep sep cs)"

fun afterSep :: "string \<Rightarrow> string \<Rightarrow> string" where
  "afterSep sep [] = []"
| "afterSep sep (c # cs) =
     (if prefix sep (c # cs) then drop (length sep) (c # cs) else afterSep sep cs)"

datatype stream_type = Hls | Dash | Native

datatype drm_info =
    LicenseDrm string string "string option"
  | TokenDrm string

record stream_info =
  stream_type :: stream_type
  cleanUrl :: string
  drmInfo :: "drm_info option"

definition parseDrm :: "string \<Rightarrow> drm_info option" where
  "parseDrm drmParams =
     (if drmParams = [] then None
      else
        (let params = URLSearchParams drmParams;
             drmScheme = paramsGet params ''drmScheme'';
             drmLicense = paramsGet params ''drmLicense'';
             token = (if truthy (paramsGet params ''token'') then paramsGet params ''token''
                      else paramsGet params ''authToken'')
         in if truthy drmScheme \<and> truthy drmLicense
            then Some (LicenseDrm (orEmpty drmScheme) (orEmpty drmLicense) token)
            else if truthy token then Some (TokenDrm (orEmpty token))
            else None))"

definition detectStreamType :: "string \<Rightarrow> stream_info" where
  "detectStreamType url =
     (let hasDrm = includesStr url ''?|'';
          clean = (if hasDrm then beforeSep ''?|'' url else url);
          drm = (if hasDrm then parseDrm (beforeSep ''?|'' (afterSep ''?|'' url)) else None);
          urlLower = toLowerCase clean;
          kind =
            (if includesStr urlLower ''.m3u8'' \<or> includesStr urlLower ''/hls/'' \<or>
                includesStr urlLower ''hls'' \<or> includesStr urlLower ''/api/m3u8-proxy''
             then Hls
             else if includesStr urlLower ''.mpd'' \<or> includesStr urlLower ''/dash/'' \<or>
                includesStr urlLower ''dash''
             then Dash
             else if includesStr urlLower ''.mp4'' \<or> includesStr urlLower ''.webm'' \<or>
                includesStr urlLower ''.mov''
             then Native
             else if includesStr urlLower ''manifest'' \<or> drm \<noteq> None then Dash
             else Hls)
      in \<lparr>stream_type = kind, cleanUrl = clean, drmInfo = drm\<rparr>)"

subsection \<open>Effects\<close>

text \<open>
  What the player does is recorded as a trace of effects, in program order:
  \<^verbatim>\<open>destroyPlayer()\<close>, the updates of the player state (loading, an error message,
  ready), the load timer being started or cleared, a call of the \<^verbatim>\<open>onError\<close> prop, the
  creation of a backend for a URL, and what the error handlers schedule.
\<close>

datatype effect =
    DestroyPlayer
  | SetLoading
  | SetError string
  | SetReady
  | StartLoadingTimeout
  | ClearLoadingTimeout
  | CallOnError
  | CreateHls string
  | CreateShaka string
  | SetVideoSrc string
  | ScheduleStartLoad nat
  | RecoverMediaError

text \<open>
  The props and refs the code reads, and what the browser answers: whether the
  dynamic import of hls.js resolves and \<^verbatim>\<open>Hls && Hls.isSupported()\<close> holds, whether
  \<^verbatim>\<open>video.canPlayType('application/vnd.apple.mpegurl')\<close> is a non-empty string, whether
  \<^verbatim>\<open>Player && Player.isBrowserSupported()\<close> holds, and how \<^verbatim>\<open>player.load(url)\<close> ends.
\<close>

record player_props =
  streamUrl :: string
  hasOnError :: bool
  videoMounted :: bool
  isMounted :: bool

record browser =
  hlsSupported :: "bool attempt"
  canPlayNativeHls :: bool
  shakaSupported :: bool
  shakaLoad :: "string \<Rightarrow> unit attempt"

text \<open>\<^verbatim>\<open>if (onError) onError();\<close>\<close>

definition callOnError :: "player_props \<Rightarrow> effect list" where
  "callOnError props = (if hasOnError props then [CallOnError] else [])"

subsection \<open>The backend initialisers\<close>

definition initNativePlayer :: "string \<Rightarrow> effect list" where
  "initNativePlayer url = [SetVideoSrc url]"

text \<open>
  \<^verbatim>\<open>initHlsPlayer\<close> and \<^verbatim>\<open>initShakaPlayer\<close> wrap their body in
  \<^verbatim>\<open>try { ... } catch (error) { if (onError) onError(); throw error; }\<close>. The result is the
  trace together with the way the call ends. The load timer is running whenever they
  are entered, so \<^verbatim>\<open>if (loadingTimeoutRef.current) clearTimeout(...)\<close> clears it.
\<close>

definition rethrowAfterOnError ::
  "player_props \<Rightarrow> effect list \<times> unit attempt \<Rightarrow> effect list \<times> unit attempt" where
  "rethrowAfterOnError props body =
     (case snd body of
        Returns u \<Rightarrow> body
      | Throws e \<Rightarrow> (fst body @ callOnError props, Throws e))"

definition initHlsPlayer :: "browser \<Rightarrow> player_props \<Rightarrow> string \<Rightarrow> effect list \<times> unit attempt" where
  "initHlsPlayer env props url =
     rethrowAfterOnError props
       (case hlsSupported env of
          Throws e \<Rightarrow> ([], Throws e)
        | Returns True \<Rightarrow> ([CreateHls url], Returns ())
        | Returns False \<Rightarrow>
            if canPlayNativeHls env then (initNativePlayer url, Returns ())
            else ([], Throws (ErrorObject ''HLS is not supported in this browser'')))"

definition initShakaPlayer :: "browser \<Rightarrow> player_props \<Rightarrow> string \<Rightarrow> effect list \<times> unit attempt" where
  "initShakaPlayer env props url =
     rethrowAfterOnError props
       (if \<not> shakaSupported env
        then ([], Throws (ErrorObject ''This browser is not supported by Shaka Player''))
        else (case shakaLoad env url of
                Throws e \<Rightarrow> ([CreateShaka url], Throws e)
              | Returns u \<Rightarrow> ([CreateShaka url, ClearLoadingTimeout, SetReady], Returns ())))"

subsection \<open>\<^verbatim>\<open>initializePlayer\<close>\<close>

definition errorMessage :: "thrown \<Rightarrow> string" where
  "errorMessage e =
     (case e of ErrorObject m \<Rightarrow> m | OtherThrown \<Rightarrow> ''Failed to initialize player'')"

definition initBackend :: "browser \<Rightarrow> player_props \<Rightarrow> effect list \<times> unit attempt" where
  "initBackend env props =
     (let info = detectStreamType (streamUrl props) in
      case stream_type info of
        Dash \<Rightarrow> initShakaPlayer env props (cleanUrl info)
      | Hls \<Rightarrow> initHlsPlayer env props (cleanUrl info)
      | Native \<Rightarrow> (initNativePlayer (cleanUrl info), Returns ()))"

definition initializePlayer :: "browser \<Rightarrow> player_props \<Rightarrow> effect list" where
  "initializePlayer env props =
     (if streamUrl props = [] \<or> \<not> videoMounted props
      then [SetError ''No stream URL provided'']
      else [DestroyPlayer, SetLoading, StartLoadingTimeout]
           @ fst (initBackend env props)
           @ (case snd (initBackend env props) of
                Returns u \<Rightarrow> []
              | Throws e \<Rightarrow>
                  [ClearLoadingTimeout, SetError (errorMessage e)] @ callOnError props))"

subsection \<open>The error handler of the HLS backend\<close>

text \<open>
  The listener registered with \<^verbatim>\<open>hls.on(Hls.Events.ERROR, ...)\<close> closes over the
  counter \<^verbatim>\<open>retryCount\<close>, initially 0, and \<^verbatim>\<open>maxRetries = 3\<close>. One call takes the
  counter and the error data and yields the new counter and the trace. The listener is
  registered after \<^verbatim>\<open>initializePlayer\<close> has started the load timer, so the guarded
  \<^verbatim>\<open>clearTimeout\<close> of a fatal error runs; a retry is
  \<^verbatim>\<open>setTimeout(() => hls.startLoad(), 1000 * retryCount)\<close> with the counter already
  incremented.
\<close>

datatype hls_error_type =
  NETWORK_ERROR | MEDIA_ERROR | KEY_SYSTEM_ERROR | MUX_ERROR | OTHER_ERROR

record hls_error_data =
  fatal :: bool
  error_type :: hls_error_type

definition maxRetries :: nat where
  "maxRetries = 3"

definition hlsErrorHandler ::
  "player_props \<Rightarrow> nat \<Rightarrow> hls_error_data \<Rightarrow> nat \<times> effect list" where
  "hlsErrorHandler props retryCount data =
     (if \<not> isMounted props then (retryCount, [])
      else if fatal data then
        (case error_type data of
           NETWORK_ERROR \<Rightarrow>
             if retryCount < maxRetries
             then (retryCount + 1,
                   [ClearLoadingTimeout, ScheduleStartLoad (1000 * (retryCount + 1))])
             else (retryCount,
                   [ClearLoadingTimeout, SetError ''Network error: Unable to load stream'']
                   @ callOnError props @ [DestroyPlayer])
         | MEDIA_ERROR \<Rightarrow> (retryCount, [ClearLoadingTimeout, RecoverMediaError])
         | _ \<Rightarrow> (retryCount,
                 [ClearLoadingTimeout, SetError ''Playback error occurred'']
                 @ callOnError props @ [DestroyPlayer]))
      else (retryCount, []))"

text \<open>
  A sequence of errors reported by one hls.js instance. \<^verbatim>\<open>destroyPlayer()\<close> destroys
  the instance and with it the listener, so nothing is delivered after a teardown.
  The result is the final counter and the trace of each delivered error.
\<close>

fun hlsErrors :: "player_props \<Rightarrow> nat \<Rightarrow> hls_error_data list \<Rightarrow> nat \<times> effect list list" where
  "hlsErrors props retryCount [] = (retryCount, [])"
| "hlsErrors props retryCount (data # rest) =
     (let (retryCount', trace) = hlsErrorHandler props retryCount data in
      if DestroyPlayer \<in> set trace then (retryCount', [trace])
      else (case hlsErrors props retryCount' rest of
              (final, traces) \<Rightarrow> (final, trace # traces)))"

text \<open>The delays of the retries a trace schedules.\<close>

fun retryDelays :: "effect list \<Rightarrow> nat list" where
  "retryDelays [] = []"
| "retryDelays (ScheduleStartLoad ms # es) = ms # retryDelays es"
| "retryDelays (e # es) = retryDelays es"

text \<open>Example values: a mounted player for an HLS stream, a fatal network error, and a
  browser without Media Source Extensions and without native HLS.\<close>

definition exProps :: player_props where
  "exProps = \<lparr>streamUrl = ''https://host/live.m3u8'', hasOnError = True,
              videoMounted = True, isMounted = True\<rparr>"

definition exNetworkError :: hls_error_data where
  "exNetworkError = \<lparr>fatal = True, error_type = NETWORK_ERROR\<rparr>"

definition exBrowser :: browser where
  "exBrowser = \<lparr>hlsSupported = Returns False, canPlayNativeHls = False,
                shakaSupported = True, shakaLoad = (\<lambda>url. Returns ())\<rparr>"

section \<open>Proxied stream URLs (\<^verbatim>\<open>urlEncryption.ts\<close>)\<close>

definition PROXY_URL :: string where
  "PROXY_URL = ''/api/m3u8-proxy''"

definition needsProxying :: "string \<Rightarrow> bool" where
  "needsProxying url =
     (if url = [] then False
      else
        (let urlLower = toLowerCase url in
         if includesStr urlLower ''/api/m3u8-proxy'' then False
         else (includesStr urlLower ''.m3u8'' \<or>
               includesStr urlLower ''.m3u'' \<or>
               includesStr urlLower ''/hls/'' \<or>
               includesStr urlLower ''m3u8'' \<or>
               includesStr urlLower ''.ts'' \<or>
               includesStr urlLower ''manifest'')))"

text \<open>
  \<^verbatim>\<open>getProxiedUrl\<close>. For a URL that already holds \<^verbatim>\<open>/api/m3u8-proxy?url=\<close> the function
  parses it and returns it at once when the \<^verbatim>\<open>url\<close> parameter is not empty; when
  the parse throws, or for an input the model of the URL parser does not cover, control
  reaches the statements below, which return the URL unchanged as well.
\<close>

definition getProxiedUrl :: "string \<Rightarrow> string" where
  "getProxiedUrl originalUrl =
     (if originalUrl = [] then originalUrl
      else if includesStr originalUrl ''/api/m3u8-proxy?url='' \<and>
              (case urlSearchParams originalUrl of
                 Covered params \<Rightarrow> truthy (paramsGet params ''url'')
               | NotCovered \<Rightarrow> False)
      then originalUrl
      else if needsProxying originalUrl
      then PROXY_URL @ ''?url='' @ encodeURIComponent originalUrl
      else originalUrl)"

text \<open>
  \<^verbatim>\<open>getOriginalUrl\<close>: \<open>None\<close> is \<^verbatim>\<open>null\<close>. The value of the \<^verbatim>\<open>url\<close> parameter, which
  \<^verbatim>\<open>searchParams.get\<close> has decoded already, is passed through \<^verbatim>\<open>decodeURIComponent\<close>;
  a \<^verbatim>\<open>URIError\<close> is caught and yields \<^verbatim>\<open>null\<close>.
\<close>

definition getOriginalUrl :: "string \<Rightarrow> string option covered" where
  "getOriginalUrl proxiedUrl =
     (if proxiedUrl = [] \<or> \<not> includesStr proxiedUrl ''/api/m3u8-proxy?url='' then Covered None
      else
        (case urlSearchParams proxiedUrl of
           NotCovered \<Rightarrow> NotCovered
         | Covered params \<Rightarrow>
             (let originalUrl = paramsGet params ''url'' in
              if truthy originalUrl then
                (case decodeURIComponent (orEmpty originalUrl) of
                   Returns s \<Rightarrow> Covered (Some s)
                 | Throws e \<Rightarrow> Covered None)
              else Covered None)))"

section \<open>The catalogue parser (\<^verbatim>\<open>parse-m3u.ts\<close>)\<close>



subsection \<open>The regular expressions\<close>


text \<open>
  The line terminators, which \<^verbatim>\<open>.\<close> does not match: LF, CR, U+2028 and U+2029.
\<close>

definition lineTerminators :: "string list" where
  "lineTerminators =
     [[CHR 0x0A], [CHR 0x0D], [CHR 0xE2, CHR 0x80, CHR 0xA8], [CHR 0xE2, CHR 0x80, CHR 0xA9]]"







text \<open>
  \<^verbatim>\<open>refererPart.match(/(?:Referer|referer)=(.+)/)\<close>: the leftmost of the two keys that is
  followed by at least one character of the same line; the group runs to the next line
  terminator.
\<close>

fun untilLineTerminator :: "string \<Rightarrow> string" where
  "untilLineTerminator [] = []"
| "untilLineTerminator (c # cs) =
     (if list_ex (\<lambda>t. prefix t (c # cs)) lineTerminators then []
      else c # untilLineTerminator cs)"

fun refererMatch :: "string \<Rightarrow> string option" where
  "refererMatch [] = None"
| "refererMatch (c # cs) =
     (if (prefix ''Referer='' (c # cs) \<or> prefix ''referer='' (c # cs))
         \<and> untilLineTerminator (drop 8 (c # cs)) \<noteq> []
      then Some (untilLineTerminator (drop 8 (c # cs)))
      else refererMatch cs)"

subsection \<open>The fields of a channel\<close>






definition referer :: "string \<Rightarrow> string" where
  "referer line =
     (case split (CHR ''|'') line of
        _ # refererPart # _ \<Rightarrow>
          (if refererPart = [] then []
           else (case refererMatch refererPart of Some v \<Rightarrow> trim v | None \<Rightarrow> []))
      | _ \<Rightarrow> [])"


subsection \<open>\<^verbatim>\<open>parseM3U\<close>\<close>





section \<open>The failover handler of the event page\<close>







section \<open>Properties of the manifest proxy\<close>

lemma split_nonempty: "split sep s \<noteq> []"
  by (induction s) (auto split: list.splits)

lemma split_no_sep: "l \<in> set (split sep s) \<Longrightarrow> sep \<notin> set l"
proof (induction s arbitrary: l)
  case Nil
  then show ?case by simp
next
  case (Cons c cs)
  obtain h t where ht: "split sep cs = h # t"
    using split_nonempty [of sep cs] by (cases "split sep cs") auto
  show ?case
  proof (cases "c = sep")
    case True
    then have "l = [] \<or> l \<in> set (split sep cs)" using Cons.prems by simp
    then show ?thesis using Cons.IH by auto
  next
    case False
    then have "l = c # h \<or> l \<in> set t" using Cons.prems ht by simp
    moreover have "sep \<notin> set h" using Cons.IH [of h] ht by simp
    moreover have "l \<in> set t \<Longrightarrow> sep \<notin> set l" using Cons.IH [of l] ht by simp
    ultimately show ?thesis using False by auto
  qed
qed

lemma split_append_sep:
  "sep \<notin> set l \<Longrightarrow> split sep (l @ sep # r) = l # split sep r"
  by (induction l) auto

lemma split_no_sep_id: "sep \<notin> set l \<Longrightarrow> split sep l = [l]"
  by (induction l) auto

lemma split_join:
  "ls \<noteq> [] \<Longrightarrow> \<forall>l \<in> set ls. sep \<notin> set l \<Longrightarrow> split sep (join sep ls) = ls"
proof (induction sep ls rule: join.induct)
  case (1 sep)
  then show ?case by simp
next
  case (2 sep l)
  then show ?case by (simp add: split_no_sep_id)
next
  case (3 sep l v va)
  have IH: "split sep (join sep (v # va)) = v # va"
    using "3.IH" "3.prems" by simp
  have "sep \<notin> set l" using "3.prems" by simp
  then have "split sep (l @ sep # join sep (v # va)) = l # split sep (join sep (v # va))"
    by (rule split_append_sep)
  then show ?case using IH by simp
qed

lemma length_join_map:
  "length (split sep (join sep (map f ls))) = length ls"
  if "ls \<noteq> []" and "\<forall>l \<in> set ls. sep \<notin> set (f l)"
  using that split_join [of "map f ls" sep] by simp

lemma stripLeading_suffix: "suffix (stripLeading ws s) s"
proof (induction ws s rule: stripLeading.induct)
  case (1 ws s)
  show ?case
  proof (cases "find (\<lambda>w. w \<noteq> [] \<and> prefix w s) ws")
    case None
    then show ?thesis by simp
  next
    case (Some w)
    then have "suffix (stripLeading ws (drop (length w) s)) (drop (length w) s)"
      using 1 by simp
    moreover have "suffix (drop (length w) s) s"
      by (rule suffix_drop)
    ultimately have "suffix (stripLeading ws (drop (length w) s)) s"
      by (rule suffix_order.trans)
    then show ?thesis using Some by simp
  qed
qed

lemma set_trim: "set (trim s) \<subseteq> set s"
proof -
  have a: "set (trimStart s) \<subseteq> set s"
    unfolding trimStart_def by (rule set_mono_suffix [OF stripLeading_suffix])
  have "set (trimEnd t) \<subseteq> set t" for t
    unfolding trimEnd_def
    using set_mono_suffix [OF stripLeading_suffix, of "map rev whiteSpace" "rev t"] by simp
  then show ?thesis unfolding trim_def using a by blast
qed

lemma hexDigit_mem: "hexDigit n \<in> set ''0123456789ABCDEF''"
  unfolding hexDigit_def by (rule nth_mem) simp

lemma NL_not_hexDigit: "hexDigit n \<noteq> NL"
  using hexDigit_mem [of n] by auto

lemma NL_not_unreserved: "\<not> uriUnreserved NL"
  by (simp add: uriUnreserved_def isUpper_def isLower_def isDigit_def)

lemma NL_notin_percentEncode: "NL \<notin> set (percentEncode c)"
  using NL_not_hexDigit [of "of_char c div 16"] NL_not_hexDigit [of "of_char c mod 16"]
  by (auto simp: percentEncode_def)

lemma encodeURIComponent_Cons:
  "encodeURIComponent (c # s) =
     (if uriUnreserved c then [c] else percentEncode c) @ encodeURIComponent s"
  by (simp add: encodeURIComponent_def)

lemma NL_notin_encodeURIComponent: "NL \<notin> set (encodeURIComponent s)"
proof (induction s)
  case Nil
  then show ?case by (simp add: encodeURIComponent_def)
next
  case (Cons c s)
  then show ?case
    using NL_not_unreserved NL_notin_percentEncode [of c]
    by (auto simp: encodeURIComponent_Cons)
qed

lemma replaceURI_match:
  assumes "prefix (''URI='' @ [DQ]) s"
      and "takeWhile (\<lambda>x. x \<noteq> DQ) (drop 5 s) \<noteq> []"
      and "dropWhile (\<lambda>x. x \<noteq> DQ) (drop 5 s) \<noteq> []"
  shows "s = ''URI='' @ [DQ] @ takeWhile (\<lambda>x. x \<noteq> DQ) (drop 5 s) @ [DQ]
               @ tl (dropWhile (\<lambda>x. x \<noteq> DQ) (drop 5 s))"
proof -
  let ?u = "takeWhile (\<lambda>x. x \<noteq> DQ) (drop 5 s)"
  let ?a = "dropWhile (\<lambda>x. x \<noteq> DQ) (drop 5 s)"
  from assms(1) obtain r where r: "s = (''URI='' @ [DQ]) @ r"
    by (auto simp: prefix_def)
  then have d: "drop 5 s = r" by simp
  have "hd ?a = DQ" using hd_dropWhile [OF assms(3)] by simp
  then have a: "?a = DQ # tl ?a" using assms(3) by (cases ?a) auto
  have "r = ?u @ ?a" using d takeWhile_dropWhile_id [of "\<lambda>x. x \<noteq> DQ" r] by simp
  then have "r = ?u @ [DQ] @ tl ?a" using a by simp
  then show ?thesis using r by simp
qed

lemma replaceURI_step:
  "replaceURI f (c # cs) =
     (if prefix (''URI='' @ [DQ]) (c # cs)
         \<and> takeWhile (\<lambda>x. x \<noteq> DQ) (drop 5 (c # cs)) \<noteq> []
         \<and> dropWhile (\<lambda>x. x \<noteq> DQ) (drop 5 (c # cs)) \<noteq> []
      then f (takeWhile (\<lambda>x. x \<noteq> DQ) (drop 5 (c # cs)))
           @ replaceURI f (tl (dropWhile (\<lambda>x. x \<noteq> DQ) (drop 5 (c # cs))))
      else c # replaceURI f cs)"
  by (simp only: replaceURI.simps Let_def)

lemma replaceURI_induct [case_names Nil Match Keep]:
  assumes "P []"
      and "\<And>s. s \<noteq> [] \<Longrightarrow> prefix (''URI='' @ [DQ]) s \<Longrightarrow>
             takeWhile (\<lambda>x. x \<noteq> DQ) (drop 5 s) \<noteq> [] \<Longrightarrow>
             dropWhile (\<lambda>x. x \<noteq> DQ) (drop 5 s) \<noteq> [] \<Longrightarrow>
             P (tl (dropWhile (\<lambda>x. x \<noteq> DQ) (drop 5 s))) \<Longrightarrow> P s"
      and "\<And>c cs. \<not> (prefix (''URI='' @ [DQ]) (c # cs)
               \<and> takeWhile (\<lambda>x. x \<noteq> DQ) (drop 5 (c # cs)) \<noteq> []
               \<and> dropWhile (\<lambda>x. x \<noteq> DQ) (drop 5 (c # cs)) \<noteq> []) \<Longrightarrow> P cs \<Longrightarrow> P (c # cs)"
  shows "P s"
proof (induction s rule: length_induct)
  case (1 s)
  show ?case
  proof (cases s)
    case Nil
    then show ?thesis using assms(1) by simp
  next
    case (Cons c cs)
    let ?a = "dropWhile (\<lambda>x. x \<noteq> DQ) (drop 5 s)"
    show ?thesis
    proof (cases "prefix (''URI='' @ [DQ]) s
               \<and> takeWhile (\<lambda>x. x \<noteq> DQ) (drop 5 s) \<noteq> [] \<and> ?a \<noteq> []")
      case True
      have "length (tl ?a) \<le> length (drop 5 s)"
        using length_dropWhile_le [of "\<lambda>x. x \<noteq> DQ" "drop 5 s"] by simp
      then have "length (tl ?a) < length s" using Cons by simp
      then have "P (tl ?a)" using 1 by blast
      then show ?thesis using assms(2) [of s] True Cons by blast
    next
      case False
      have "P cs" using 1 Cons by simp
      then show ?thesis using assms(3) [of c cs] False Cons by blast
    qed
  qed
qed

lemma replaceURI_uriSubst:
  "uriSubst g s (replaceURI (\<lambda>v. ''URI='' @ [DQ] @ g v @ [DQ]) s)"
proof (induction s rule: replaceURI_induct)
  case Nil
  then show ?case by (simp add: uriSubst_Nil)
next
  case (Match s)
  let ?u = "takeWhile (\<lambda>x. x \<noteq> DQ) (drop 5 s)"
  let ?t = "tl (dropWhile (\<lambda>x. x \<noteq> DQ) (drop 5 s))"
  let ?f = "\<lambda>v. ''URI='' @ [DQ] @ g v @ [DQ]"
  obtain c cs where s: "s = c # cs" using Match(1) by (cases s) auto
  have eq: "s = ''URI='' @ [DQ] @ ?u @ [DQ] @ ?t"
    using replaceURI_match [OF Match(2) Match(3) Match(4)] .
  have "DQ \<notin> set ?u" by (auto dest: set_takeWhileD)
  then have "uriSubst g (''URI='' @ [DQ] @ ?u @ [DQ] @ ?t)
                        (''URI='' @ [DQ] @ g ?u @ [DQ] @ replaceURI ?f ?t)"
    using uriSubst_URI [OF Match(5) Match(3)] by blast
  moreover have "replaceURI ?f s = ?f ?u @ replaceURI ?f ?t"
    using Match(2,3,4) unfolding s by (simp only: replaceURI_step if_True simp_thms)
  ultimately show ?case using eq by simp
next
  case (Keep c cs)
  have "replaceURI (\<lambda>v. ''URI='' @ [DQ] @ g v @ [DQ]) (c # cs)
        = c # replaceURI (\<lambda>v. ''URI='' @ [DQ] @ g v @ [DQ]) cs"
    using Keep(1) by (simp only: replaceURI_step if_False)
  then show ?case using Keep(2) by (simp add: uriSubst_Keep)
qed

lemma set_replaceURI:
  "set (replaceURI f s) \<subseteq> set s \<union> (\<Union>v. set (f v))"
proof (induction s rule: replaceURI_induct)
  case Nil
  then show ?case by simp
next
  case (Match s)
  let ?u = "takeWhile (\<lambda>x. x \<noteq> DQ) (drop 5 s)"
  let ?t = "tl (dropWhile (\<lambda>x. x \<noteq> DQ) (drop 5 s))"
  obtain c cs where s: "s = c # cs" using Match(1) by (cases s) auto
  have eq: "s = ''URI='' @ [DQ] @ ?u @ [DQ] @ ?t"
    using replaceURI_match [OF Match(2) Match(3) Match(4)] .
  have "set ?t \<subseteq> set s" by (subst (2) eq) auto
  moreover have "replaceURI f s = f ?u @ replaceURI f ?t"
    using Match(2,3,4) unfolding s by (simp only: replaceURI_step if_True simp_thms)
  ultimately show ?case using Match(5) by auto
next
  case (Keep c cs)
  have "replaceURI f (c # cs) = c # replaceURI f cs"
    using Keep(1) by (simp only: replaceURI_step if_False)
  then show ?case using Keep(2) by auto
qed

lemma startsWith_hash: "startsWith t ''#EXT'' \<Longrightarrow> startsWith t ''#''"
  by (auto simp: startsWith_def prefix_def)

lemma NL_notin_proxiedUrl:
  "NL \<notin> set (url_origin u) \<Longrightarrow> NL \<notin> set (url_pathname u) \<Longrightarrow> NL \<notin> set (proxiedUrlOf u a)"
  using NL_notin_encodeURIComponent [of a] by (simp add: proxiedUrlOf_def)

lemma NL_notin_rewriteLine:
  assumes "NL \<notin> set (url_origin u)" and "NL \<notin> set (url_pathname u)" and "NL \<notin> set line"
  shows "NL \<notin> set (rewriteLine u b bp line)"
proof -
  let ?f = "\<lambda>uri. ''URI='' @ [DQ] @ proxiedUrlOf u (resolveUrl uri b bp) @ [DQ]"
  have t: "NL \<notin> set (trim line)" using assms(3) set_trim [of line] by blast
  have f: "NL \<notin> set (?f v)" for v
    using NL_notin_proxiedUrl [OF assms(1,2)] by simp
  have "NL \<notin> set (replaceURI ?f (trim line))"
    using set_replaceURI [of ?f "trim line"] t f by blast
  then show ?thesis
    using t NL_notin_proxiedUrl [OF assms(1,2)]
    by (simp add: rewriteLine_def Let_def)
qed

lemma rewritePlaylist_lines:
  assumes "NL \<notin> set (url_origin u)" and "NL \<notin> set (url_pathname u)"
  shows "split NL (rewritePlaylist u b text)
         = map (rewriteLine u b (basePathOf b)) (split NL text)"
proof -
  have "\<forall>l \<in> set (map (rewriteLine u b (basePathOf b)) (split NL text)). NL \<notin> set l"
    using NL_notin_rewriteLine [OF assms] split_no_sep [of _ NL "text"] by auto
  then show ?thesis
    unfolding rewritePlaylist_def
    using split_join [of "map (rewriteLine u b (basePathOf b)) (split NL text)" NL]
      split_nonempty [of NL "text"]
    by simp
qed

text \<open>
  C1 (as amended). Let \<open>t\<close> be line \<open>i\<close> of the playlist after \<^verbatim>\<open>trim()\<close>. If \<open>t\<close> is not
  empty and does not start with \<^verbatim>\<open>#\<close>, then line \<open>i\<close> of the rewritten playlist is
  \<^verbatim>\<open>url.origin + url.pathname + '?url=' + encodeURIComponent(r)\<close>, where \<open>r\<close> is \<open>t\<close>
  resolved by the four tiers: unchanged when it starts with \<^verbatim>\<open>http://\<close> or
  \<^verbatim>\<open>https://\<close>; prefixed with the response protocol when it starts with \<^verbatim>\<open>//\<close>; with
  protocol, \<^verbatim>\<open>//\<close> and host when it starts with \<^verbatim>\<open>/\<close>; with protocol, \<^verbatim>\<open>//\<close>, host
  and base path otherwise. The origin and the path of the request URL are serialised
  URL components and hold no line feed.
\<close>

theorem proxied_reference_lines:
  assumes "NL \<notin> set (url_origin u)" and "NL \<notin> set (url_pathname u)"
      and "i < length (split NL text)"
      and "t = trim (split NL text ! i)"
      and "t \<noteq> []" and "\<not> startsWith t ''#''"
  shows "split NL (rewritePlaylist u b text) ! i
         = url_origin u @ url_pathname u @ ''?url='' @ encodeURIComponent
             (if startsWith t ''http://'' \<or> startsWith t ''https://'' then t
              else if startsWith t ''//'' then url_protocol b @ t
              else if startsWith t ''/'' then url_protocol b @ ''//'' @ url_host b @ t
              else url_protocol b @ ''//'' @ url_host b @ basePathOf b @ t)"
proof -
  have "split NL (rewritePlaylist u b text) ! i
        = rewriteLine u b (basePathOf b) (split NL text ! i)"
    using rewritePlaylist_lines [OF assms(1,2)] assms(3) by simp
  also have "\<dots> = proxiedUrlOf u (resolveUrl t b (basePathOf b))"
    using assms(4,5,6) startsWith_hash [of t]
    by (auto simp: rewriteLine_def Let_def)
  finally show ?thesis
    by (simp add: proxiedUrlOf_def resolveUrl_def)
qed

text \<open>The third line of the example playlist, \<^verbatim>\<open>seg0.ts\<close> followed by a carriage return.\<close>

theorem proxied_reference_lines_witness:
  "split NL (rewritePlaylist exProxy exBase exPlaylist) ! 2
   = ''https://p.example/proxy?url=https%3A%2F%2Fhost%2Fhls%2Fseg0.ts''"
proof -
  have 1: "NL \<notin> set (url_origin exProxy)" by code_simp
  have 2: "NL \<notin> set (url_pathname exProxy)" by code_simp
  have 3: "2 < length (split NL exPlaylist)" by code_simp
  have 4: "''seg0.ts'' = trim (split NL exPlaylist ! 2)" by code_simp
  have 5: "''seg0.ts'' \<noteq> []" by simp
  have 6: "\<not> startsWith ''seg0.ts'' ''#''" by code_simp
  have 7: "url_origin exProxy @ url_pathname exProxy @ ''?url='' @ encodeURIComponent
             (if startsWith ''seg0.ts'' ''http://'' \<or> startsWith ''seg0.ts'' ''https://''
              then ''seg0.ts''
              else if startsWith ''seg0.ts'' ''//'' then url_protocol exBase @ ''seg0.ts''
              else if startsWith ''seg0.ts'' ''/''
                then url_protocol exBase @ ''//'' @ url_host exBase @ ''seg0.ts''
              else url_protocol exBase @ ''//'' @ url_host exBase @ basePathOf exBase @ ''seg0.ts'')
           = ''https://p.example/proxy?url=https%3A%2F%2Fhost%2Fhls%2Fseg0.ts''"
    by code_simp
  show ?thesis
    using proxied_reference_lines [OF 1 2 3 4 5 6, of exBase] 7 by simp
qed

text \<open>
  C1 as stated resolves the input line itself. The third line of the example playlist
  is \<^verbatim>\<open>seg0.ts\<close> with a trailing carriage return: it is not blank and is no tag, and
  the handler's output is not the proxied resolution of that line, since the handler
  resolves the trimmed line.
\<close>

theorem untrimmed_reference_line_counterexample:
  "\<not> startsWith (split NL exPlaylist ! 2) ''#''
   \<and> split NL exPlaylist ! 2 = ''seg0.ts'' @ [CR]
   \<and> split NL (rewritePlaylist exProxy exBase exPlaylist) ! 2
      \<noteq> url_origin exProxy @ url_pathname exProxy @ ''?url='' @ encodeURIComponent
           (resolveUrl (split NL exPlaylist ! 2) exBase (basePathOf exBase))"
  by code_simp

lemma uriSubst_no_quote: "uriSubst g xs ys \<Longrightarrow> DQ \<notin> set xs \<Longrightarrow> ys = xs"
  by (induction rule: uriSubst.induct) auto

text \<open>
  The example of a playlist with a key line and a segment line, with CRLF line ends:
  the key URI and the segment are resolved against \<^verbatim>\<open>https://host/hls/\<close> and proxied,
  and the carriage returns are gone.
\<close>

lemma example_playlist_rewritten:
  "rewritePlaylist exProxy exBase exPlaylist
   = ''#EXTM3U'' @ [NL]
     @ ''#EXT-X-KEY:METHOD=AES-128,URI='' @ [DQ]
     @ ''https://p.example/proxy?url=https%3A%2F%2Fhost%2Fhls%2Fkey.bin'' @ [DQ] @ [NL]
     @ ''https://p.example/proxy?url=https%3A%2F%2Fhost%2Fhls%2Fseg0.ts'' @ [NL]"
  by code_simp

text \<open>
  C2 (as amended). The rewritten playlist has as many lines as the input, in the same
  order. Line \<open>i\<close> of the output is made from line \<open>i\<close> of the input after \<^verbatim>\<open>trim()\<close>:
  a reference line (not empty, not starting with \<^verbatim>\<open>#\<close>) is replaced as a whole by its
  proxied URL, and every other line differs from the trimmed input line only in the
  values of quoted \<^verbatim>\<open>URI="..."\<close> attributes, each replaced by its proxied URL.
\<close>

theorem rewrite_preserves_lines:
  assumes "NL \<notin> set (url_origin u)" and "NL \<notin> set (url_pathname u)"
  shows "length (split NL (rewritePlaylist u b text)) = length (split NL text)
       \<and> (\<forall>i < length (split NL text).
            (if trim (split NL text ! i) \<noteq> [] \<and> \<not> startsWith (trim (split NL text ! i)) ''#''
             then split NL (rewritePlaylist u b text) ! i
                  = proxiedUrlOf u (resolveUrl (trim (split NL text ! i)) b (basePathOf b))
             else uriSubst (\<lambda>v. proxiedUrlOf u (resolveUrl v b (basePathOf b)))
                    (trim (split NL text ! i)) (split NL (rewritePlaylist u b text) ! i)))"
proof -
  let ?g = "\<lambda>v. proxiedUrlOf u (resolveUrl v b (basePathOf b))"
  have lines: "split NL (rewritePlaylist u b text)
               = map (rewriteLine u b (basePathOf b)) (split NL text)"
    by (rule rewritePlaylist_lines [OF assms])
  have keep: "uriSubst ?g t t" for t
    by (induction t) (auto intro: uriSubst.intros)
  have line: "(if trim l \<noteq> [] \<and> \<not> startsWith (trim l) ''#''
               then rewriteLine u b (basePathOf b) l = ?g (trim l)
               else uriSubst ?g (trim l) (rewriteLine u b (basePathOf b) l))" for l
    using startsWith_hash [of "trim l"] keep [of "trim l"]
      replaceURI_uriSubst [of ?g "trim l"]
    by (auto simp: rewriteLine_def Let_def)
  show ?thesis using lines line by simp
qed

text \<open>The key line of the example playlist.\<close>

theorem rewrite_preserves_lines_witness:
  "length (split NL (rewritePlaylist exProxy exBase exPlaylist)) = 4
   \<and> uriSubst (\<lambda>v. proxiedUrlOf exProxy (resolveUrl v exBase (basePathOf exBase)))
        (trim (split NL exPlaylist ! 1))
        (split NL (rewritePlaylist exProxy exBase exPlaylist) ! 1)"
proof -
  have 1: "NL \<notin> set (url_origin exProxy)" by code_simp
  have 2: "NL \<notin> set (url_pathname exProxy)" by code_simp
  have 3: "length (split NL exPlaylist) = 4" by code_simp
  have 4: "\<not> (trim (split NL exPlaylist ! 1) \<noteq> []
              \<and> \<not> startsWith (trim (split NL exPlaylist ! 1)) ''#'')" by code_simp
  show ?thesis
    using rewrite_preserves_lines [OF 1 2, of exBase exPlaylist] 3 4 by auto
qed

text \<open>
  C2 as stated leaves every character outside URI values unchanged. The first line of
  the example playlist is \<^verbatim>\<open>#EXTM3U\<close> with a trailing carriage return and holds no
  URI; the handler returns it without the carriage return.
\<close>

theorem trimmed_tag_line_counterexample:
  "split NL exPlaylist ! 0 = ''#EXTM3U'' @ [CR]
   \<and> split NL (rewritePlaylist exProxy exBase exPlaylist) ! 0 = ''#EXTM3U''
   \<and> \<not> uriSubst (\<lambda>v. proxiedUrlOf exProxy (resolveUrl v exBase (basePathOf exBase)))
          (split NL exPlaylist ! 0)
          (split NL (rewritePlaylist exProxy exBase exPlaylist) ! 0)"
proof -
  have a: "split NL exPlaylist ! 0 = ''#EXTM3U'' @ [CR]" by code_simp
  have b: "split NL (rewritePlaylist exProxy exBase exPlaylist) ! 0 = ''#EXTM3U''"
    by code_simp
  have "\<not> uriSubst g (''#EXTM3U'' @ [CR]) ''#EXTM3U''" for g
    using uriSubst_no_quote [of g "''#EXTM3U'' @ [CR]" "''#EXTM3U''"] by auto
  then show ?thesis using a b by simp
qed

text \<open>
  C8 (as amended). A request that passes the method, origin and parameter checks and
  whose upstream fetch succeeds with an \<^verbatim>\<open>ok\<close> response is answered with the rewritten
  playlist exactly when the content type contains \<^verbatim>\<open>mpegurl\<close>, \<^verbatim>\<open>m3u8\<close>, \<^verbatim>\<open>m3u\<close> or
  \<^verbatim>\<open>vnd.apple.mpegurl\<close>, or the lower-cased target URL contains \<^verbatim>\<open>.m3u8\<close> or \<^verbatim>\<open>.m3u\<close>
  anywhere; otherwise the upstream body is passed through with the upstream status.
\<close>

theorem playlist_classification:
  assumes "req_method request \<noteq> ''OPTIONS''"
      and "\<not> originRejected (allowedOrigins env) (req_header request ''origin'')"
      and "req_target request = Some targetUrl" and "targetUrl \<noteq> []"
      and "fetch pf targetUrl (upstreamHeaders pf request targetUrl) = Resolved response"
      and "up_ok response"
      and "contentType = orEmpty (up_header response ''content-type'')"
  shows "(if includesStr contentType ''mpegurl'' \<or> includesStr contentType ''m3u8'' \<or>
             includesStr contentType ''m3u'' \<or> includesStr contentType ''vnd.apple.mpegurl'' \<or>
             includesStr (toLowerCase targetUrl) ''.m3u8'' \<or>
             includesStr (toLowerCase targetUrl) ''.m3u''
          then res_status (handler pf env request) = 200
             \<and> res_body (handler pf env request)
               = Text (rewritePlaylist (req_url request) (up_url response) (up_body response))
          else res_status (handler pf env request) = up_status response
             \<and> res_body (handler pf env request) = Stream (up_body response))"
  using assms
  by (simp add: handler_def Let_def truthy_def orEmpty_def isPlaylist_def)

text \<open>A target whose playlist extension is followed by a query string.\<close>

theorem playlist_classification_witness:
  "res_body (handler exPlatform None (exRequest ''https://host/live.m3u8?token=1''))
   = Text ''https://p.example/proxy?url=https%3A%2F%2Fhost%2Fhls%2Fseg0.ts''"
proof -
  let ?t = "''https://host/live.m3u8?token=1''"
  have 1: "req_method (exRequest ?t) \<noteq> ''OPTIONS''" by code_simp
  have 2: "\<not> originRejected (allowedOrigins None) (req_header (exRequest ?t) ''origin'')"
    by code_simp
  have 3: "req_target (exRequest ?t) = Some ?t" by code_simp
  have 4: "?t \<noteq> []" by simp
  have 5: "fetch exPlatform ?t (upstreamHeaders exPlatform (exRequest ?t) ?t)
           = Resolved exUpstream" by (simp add: exPlatform_def)
  have 6: "up_ok exUpstream" by code_simp
  have 7: "''video/mp2t'' = orEmpty (up_header exUpstream ''content-type'')" by code_simp
  have 8: "includesStr (toLowerCase ?t) ''.m3u8''" by code_simp
  have 9: "rewritePlaylist (req_url (exRequest ?t)) (up_url exUpstream) (up_body exUpstream)
           = ''https://p.example/proxy?url=https%3A%2F%2Fhost%2Fhls%2Fseg0.ts''" by code_simp
  show ?thesis
    using playlist_classification [OF 1 2 3 4 5 6 7] 8 9 by simp
qed

text \<open>
  C8 as stated classifies by the end of the URL. The target
  \<^verbatim>\<open>https://host/live.m3u8?token=1\<close> does not end in \<^verbatim>\<open>.m3u8\<close> or \<^verbatim>\<open>.m3u\<close> and the content
  type \<^verbatim>\<open>video/mp2t\<close> holds no marker, yet the handler answers with a rewritten playlist.
\<close>

theorem interior_extension_counterexample:
  "\<not> includesStr ''video/mp2t'' ''mpegurl'' \<and> \<not> includesStr ''video/mp2t'' ''m3u''
   \<and> \<not> endsWith (toLowerCase ''https://host/live.m3u8?token=1'') ''.m3u8''
   \<and> \<not> endsWith (toLowerCase ''https://host/live.m3u8?token=1'') ''.m3u''
   \<and> orEmpty (up_header exUpstream ''content-type'') = ''video/mp2t''
   \<and> handler exPlatform None (exRequest ''https://host/live.m3u8?token=1'')
     = \<lparr>res_status = 200,
        res_headers =
          [(''Content-Type'', ''application/vnd.apple.mpegurl''),
           (''Cache-Control'', ''no-cache, no-store, must-revalidate''),
           (''Pragma'', ''no-cache''),
           (''Expires'', ''0'')] @ getCorsHeaders (allowedOrigins None) None,
        res_body = Text ''https://p.example/proxy?url=https%3A%2F%2Fhost%2Fhls%2Fseg0.ts''\<rparr>"
  by code_simp

section \<open>Properties of the timeline\<close>

lemma shakaStrategy_live:
  "seekRange player = Returns (Some r) \<Longrightarrow> isFinite (range_end r) \<Longrightarrow>
   js_greater (range_end r) (Num 0) \<Longrightarrow> shakaStrategy player d l = (range_start r, range_end r, False)"
  by (simp add: shakaStrategy_def)

lemma nativeStrategy_live:
  "isFinite (range_end (last rs)) \<Longrightarrow> js_greater (range_end (last rs)) (Num 0) \<Longrightarrow>
   nativeStrategy rs d l = (range_start (hd rs), range_end (last rs), False)"
  by (simp add: nativeStrategy_def Let_def)

lemma startTime_clamped:
  "\<exists>x. (if \<not> isFinite s \<or> js_less s (Num 0) then Num 0 else s) = Num x \<and> 0 \<le> x"
  by (cases s) auto

text \<open>
  C5 (as amended). The seek range consulted is the Shaka player's \<^verbatim>\<open>seekRange()\<close> when
  the player type is Shaka and the player exists, and the native \<^verbatim>\<open>seekable\<close> ranges
  (end of the last range) only otherwise. Whenever the range consulted has a finite end
  greater than 0, \<^verbatim>\<open>isLive\<close> is false, whatever the duration of the media element,
  infinite included; and the returned \<^verbatim>\<open>startTime\<close> is always a finite number that is
  not negative.
\<close>

theorem timeline_not_live_and_start_clamped:
  "(videoRef = Some video \<and> playerType = Some ShakaPlayer \<and> shakaPlayerRef = Some player
      \<and> seekRange player = Returns (Some r)
      \<and> isFinite (range_end r) \<and> js_greater (range_end r) (Num 0)
    \<longrightarrow> \<not> isLive (getTimeStats playerType shakaPlayerRef videoRef))
   \<and> (videoRef = Some video \<and> \<not> (playerType = Some ShakaPlayer \<and> shakaPlayerRef \<noteq> None)
      \<and> video_seekable video \<noteq> []
      \<and> isFinite (range_end (last (video_seekable video)))
      \<and> js_greater (range_end (last (video_seekable video))) (Num 0)
    \<longrightarrow> \<not> isLive (getTimeStats playerType shakaPlayerRef videoRef))
   \<and> (\<exists>x. startTime (getTimeStats playerType shakaPlayerRef videoRef) = Num x \<and> 0 \<le> x)"
proof (intro conjI impI)
  assume a: "videoRef = Some video \<and> playerType = Some ShakaPlayer \<and> shakaPlayerRef = Some player
      \<and> seekRange player = Returns (Some r)
      \<and> isFinite (range_end r) \<and> js_greater (range_end r) (Num 0)"
  then show "\<not> isLive (getTimeStats playerType shakaPlayerRef videoRef)"
    by (simp add: getTimeStats_def shakaStrategy_live)
next
  assume a: "videoRef = Some video \<and> \<not> (playerType = Some ShakaPlayer \<and> shakaPlayerRef \<noteq> None)
      \<and> video_seekable video \<noteq> []
      \<and> isFinite (range_end (last (video_seekable video)))
      \<and> js_greater (range_end (last (video_seekable video))) (Num 0)"
  then have "(case (playerType, shakaPlayerRef) of
                (Some ShakaPlayer, Some player) \<Rightarrow> shakaStrategy player d l
              | _ \<Rightarrow> if video_seekable video \<noteq> []
                     then nativeStrategy (video_seekable video) d l
                     else (Num 0, d, l))
             = nativeStrategy (video_seekable video) d l" for d l
    by (auto split: option.splits player_type.splits)
  then show "\<not> isLive (getTimeStats playerType shakaPlayerRef videoRef)"
    using a by (simp add: getTimeStats_def nativeStrategy_live)
next
  show "\<exists>x. startTime (getTimeStats playerType shakaPlayerRef videoRef) = Num x \<and> 0 \<le> x"
  proof (cases videoRef)
    case None
    then show ?thesis by (simp add: getTimeStats_def)
  next
    case (Some video)
    obtain s d l where t:
      "(case (playerType, shakaPlayerRef) of
          (Some ShakaPlayer, Some player) \<Rightarrow>
             shakaStrategy player (video_duration video) (\<not> isFinite (video_duration video))
        | _ \<Rightarrow> if video_seekable video \<noteq> []
               then nativeStrategy (video_seekable video) (video_duration video)
                      (\<not> isFinite (video_duration video))
               else (Num 0, video_duration video, \<not> isFinite (video_duration video)))
       = (s, d, l)"
      using prod_cases3 by blast
    show ?thesis
      using Some t startTime_clamped [of s]
      by (simp add: getTimeStats_def Let_def)
  qed
qed

theorem timeline_not_live_and_start_clamped_witness:
  "\<not> isLive (getTimeStats (Some ShakaPlayer) (Some exShaka) (Some exLiveVideo))
   \<and> \<not> isLive (getTimeStats (Some HlsPlayer) None (Some exLiveVideo))
   \<and> startTime (getTimeStats (Some HlsPlayer) None (Some exLiveVideo)) = Num 0"
proof -
  have 1: "seekRange exShaka = Returns (Some \<lparr>range_start = Num 100, range_end = Num 160\<rparr>)
           \<and> isFinite (range_end \<lparr>range_start = Num 100, range_end = Num 160\<rparr>)
           \<and> js_greater (range_end \<lparr>range_start = Num 100, range_end = Num 160\<rparr>) (Num 0)"
    by (simp add: exShaka_def js_greater_def)
  have 2: "video_seekable exLiveVideo \<noteq> []
           \<and> isFinite (range_end (last (video_seekable exLiveVideo)))
           \<and> js_greater (range_end (last (video_seekable exLiveVideo))) (Num 0)"
    by (simp add: exLiveVideo_def js_greater_def)
  have 3: "startTime (getTimeStats (Some HlsPlayer) None (Some exLiveVideo)) = Num 0"
    by (simp add: getTimeStats_def exLiveVideo_def nativeStrategy_def js_greater_def)
  show ?thesis
    using timeline_not_live_and_start_clamped
            [of "Some exLiveVideo" exLiveVideo "Some ShakaPlayer" "Some exShaka" exShaka
                "\<lparr>range_start = Num 100, range_end = Num 160\<rparr>"]
          timeline_not_live_and_start_clamped
            [of "Some exLiveVideo" exLiveVideo "Some HlsPlayer" None]
          1 2 3
    by simp
qed

text \<open>
  C5 as stated takes the end from the Shaka seek range or otherwise from the native
  seekable range. With the Shaka player active and reporting the range from 0 to 0, a
  media element of infinite duration whose native seekable range ends at 120 is
  reported live: the native range is not consulted while the Shaka player is active.
\<close>

theorem shaka_without_range_counterexample:
  "seekRange exIdleShaka = Returns (Some \<lparr>range_start = Num 0, range_end = Num 0\<rparr>)
   \<and> video_duration exLiveVideo = PosInf
   \<and> range_end (last (video_seekable exLiveVideo)) = Num 120
   \<and> isFinite (Num 120) \<and> js_greater (Num 120) (Num 0)
   \<and> isLive (getTimeStats (Some ShakaPlayer) (Some exIdleShaka) (Some exLiveVideo))"
  by (simp add: exIdleShaka_def exLiveVideo_def getTimeStats_def shakaStrategy_def
        js_greater_def)






section \<open>Properties of the player's error handling\<close>

lemma hlsErrorHandler_retry:
  assumes "isMounted props" and "fatal e" and "error_type e = NETWORK_ERROR" and "k < 3"
  shows "hlsErrorHandler props k e
         = (k + 1, [ClearLoadingTimeout, ScheduleStartLoad (1000 * (k + 1))])"
  using assms by (simp add: hlsErrorHandler_def maxRetries_def)

lemma hlsErrorHandler_give_up:
  assumes "isMounted props" and "fatal e" and "error_type e = NETWORK_ERROR"
  shows "hlsErrorHandler props 3 e
         = (3, [ClearLoadingTimeout, SetError ''Network error: Unable to load stream'']
               @ callOnError props @ [DestroyPlayer])"
  using assms by (simp add: hlsErrorHandler_def maxRetries_def)

lemma hlsErrors_retry:
  assumes "isMounted props" and "fatal e" and "error_type e = NETWORK_ERROR" and "k < 3"
  shows "hlsErrors props k (e # rest)
         = (fst (hlsErrors props (k + 1) rest),
            [ClearLoadingTimeout, ScheduleStartLoad (1000 * (k + 1))]
            # snd (hlsErrors props (k + 1) rest))"
  using hlsErrorHandler_retry [OF assms] by (simp add: case_prod_unfold)

lemma hlsErrors_give_up:
  assumes "isMounted props" and "fatal e" and "error_type e = NETWORK_ERROR"
  shows "hlsErrors props 3 (e # rest)
         = (3, [[ClearLoadingTimeout, SetError ''Network error: Unable to load stream'']
                @ callOnError props @ [DestroyPlayer]])"
  using hlsErrorHandler_give_up [OF assms] by simp

text \<open>
  C3. Let the component be mounted with an \<^verbatim>\<open>onError\<close> prop, and let the HLS backend
  report fatal network errors. The counter starts at 0 and after \<open>k \<le> 3\<close> errors it is
  \<open>k\<close>; the first three errors each schedule a retry, after 1000, 2000 and 3000 ms; the
  fourth schedules none, calls \<^verbatim>\<open>onError\<close> once and tears the player down, so that
  over the four errors \<^verbatim>\<open>onError\<close> is called exactly once.
\<close>

theorem hls_network_retry:
  assumes "isMounted props" and "hasOnError props"
      and "fatal e" and "error_type e = NETWORK_ERROR"
  shows "(\<forall>k \<le> 3. fst (hlsErrors props 0 (replicate k e)) = k)
       \<and> snd (hlsErrors props 0 (replicate 4 e))
         = [[ClearLoadingTimeout, ScheduleStartLoad 1000],
            [ClearLoadingTimeout, ScheduleStartLoad 2000],
            [ClearLoadingTimeout, ScheduleStartLoad 3000],
            [ClearLoadingTimeout, SetError ''Network error: Unable to load stream'',
             CallOnError, DestroyPlayer]]
       \<and> map retryDelays (snd (hlsErrors props 0 (replicate 4 e)))
         = [[1000], [2000], [3000], []]
       \<and> count_list (concat (snd (hlsErrors props 0 (replicate 4 e)))) CallOnError = 1"
proof -
  note r = hlsErrors_retry [OF assms(1,3,4)]
  note g = hlsErrors_give_up [OF assms(1,3,4)]
  have r0: "hlsErrors props 0 (e # rest)
            = (fst (hlsErrors props 1 rest),
               [ClearLoadingTimeout, ScheduleStartLoad 1000] # snd (hlsErrors props 1 rest))"
    for rest using r [of 0 rest] by simp
  have r1: "hlsErrors props 1 (e # rest)
            = (fst (hlsErrors props 2 rest),
               [ClearLoadingTimeout, ScheduleStartLoad 2000] # snd (hlsErrors props 2 rest))"
    for rest using r [of 1 rest] by (simp add: numeral_2_eq_2)
  have r2: "hlsErrors props 2 (e # rest)
            = (fst (hlsErrors props 3 rest),
               [ClearLoadingTimeout, ScheduleStartLoad 3000] # snd (hlsErrors props 3 rest))"
    for rest using r [of 2 rest] by (simp add: numeral_3_eq_3 numeral_2_eq_2)
  have rep: "replicate 1 e = [e]" "replicate 2 e = [e, e]" "replicate 3 e = [e, e, e]"
    "replicate 4 e = [e, e, e, e]"
    by (simp_all add: numeral_eq_Suc)
  have base: "hlsErrors props n [] = (n, [])" for n by simp
  have four: "hlsErrors props 0 (replicate 4 e)
              = (3, [[ClearLoadingTimeout, ScheduleStartLoad 1000],
                     [ClearLoadingTimeout, ScheduleStartLoad 2000],
                     [ClearLoadingTimeout, ScheduleStartLoad 3000],
                     [ClearLoadingTimeout, SetError ''Network error: Unable to load stream'',
                      CallOnError, DestroyPlayer]])"
    using assms(2)
    by (simp only: rep r0 r1 r2 g callOnError_def fst_conv snd_conv if_True append.simps)
  have count: "fst (hlsErrors props 0 (replicate k e)) = k" if "k \<le> 3" for k
  proof -
    from that consider "k = 0" | "k = 1" | "k = 2" | "k = 3" by linarith
    then show ?thesis
    proof cases
      case 1
      then show ?thesis by simp
    next
      case 2
      then show ?thesis by (simp only: rep r0 base fst_conv)
    next
      case 3
      then show ?thesis by (simp only: rep r0 r1 base fst_conv)
    next
      case 4
      then show ?thesis by (simp only: rep r0 r1 r2 base fst_conv)
    qed
  qed
  show ?thesis using four count by simp
qed

theorem hls_network_retry_witness:
  "fst (hlsErrors exProps 0 (replicate 2 exNetworkError)) = 2
   \<and> map retryDelays (snd (hlsErrors exProps 0 (replicate 4 exNetworkError)))
     = [[1000], [2000], [3000], []]
   \<and> count_list (concat (snd (hlsErrors exProps 0 (replicate 4 exNetworkError)))) CallOnError = 1"
proof -
  have 1: "isMounted exProps" and 2: "hasOnError exProps"
    by (simp_all add: exProps_def)
  have 3: "fatal exNetworkError" and 4: "error_type exNetworkError = NETWORK_ERROR"
    by (simp_all add: exNetworkError_def)
  show ?thesis using hls_network_retry [OF 1 2 3 4] by simp
qed

lemma count_callOnError: "count_list (callOnError props) CallOnError = (if hasOnError props then 1 else 0)"
  by (simp add: callOnError_def)

lemma initBackend_throws:
  assumes "snd (initBackend env props) = Throws e" and "hasOnError props"
  shows "count_list (fst (initBackend env props)) CallOnError = 1
       \<and> DestroyPlayer \<notin> set (fst (initBackend env props))"
  using assms
  by (auto simp: initBackend_def Let_def initHlsPlayer_def initShakaPlayer_def
        rethrowAfterOnError_def initNativePlayer_def callOnError_def
      split: stream_type.splits attempt.splits bool.splits if_splits)

text \<open>
  C4. The code calls \<^verbatim>\<open>onError\<close> twice for one failure of a backend initialiser: once
  in the \<^verbatim>\<open>catch\<close> of the initialiser, which rethrows, and once more in the \<^verbatim>\<open>catch\<close>
  of \<^verbatim>\<open>initializePlayer\<close>; and no \<^verbatim>\<open>destroyPlayer()\<close> follows the failure, the only
  teardown in the trace being the one at the start of \<^verbatim>\<open>initializePlayer\<close>.
\<close>

theorem init_failure_calls_onError_twice:
  assumes "streamUrl props \<noteq> []" and "videoMounted props" and "hasOnError props"
      and "snd (initBackend env props) = Throws e"
  shows "count_list (initializePlayer env props) CallOnError = 2
       \<and> DestroyPlayer \<notin> set (tl (initializePlayer env props))"
  using assms initBackend_throws [OF assms(4,3)]
  by (simp add: initializePlayer_def callOnError_def)

theorem init_failure_calls_onError_twice_witness:
  "initializePlayer exBrowser exProps
   = [DestroyPlayer, SetLoading, StartLoadingTimeout, CallOnError, ClearLoadingTimeout,
      SetError ''HLS is not supported in this browser'', CallOnError]
   \<and> count_list (initializePlayer exBrowser exProps) CallOnError = 2"
proof -
  have 1: "streamUrl exProps \<noteq> []" and 2: "videoMounted exProps" and 3: "hasOnError exProps"
    by (simp_all add: exProps_def)
  have 4: "snd (initBackend exBrowser exProps)
           = Throws (ErrorObject ''HLS is not supported in this browser'')"
    by code_simp
  have 5: "initializePlayer exBrowser exProps
           = [DestroyPlayer, SetLoading, StartLoadingTimeout, CallOnError, ClearLoadingTimeout,
              SetError ''HLS is not supported in this browser'', CallOnError]"
    by code_simp
  show ?thesis using init_failure_calls_onError_twice [OF 1 2 3 4] 5 by simp
qed

section \<open>Properties of the proxied stream URLs\<close>

text \<open>
  C10. The round trip does not return a URL that holds a percent escape:
  \<^verbatim>\<open>searchParams.get\<close> has decoded the parameter once and \<^verbatim>\<open>decodeURIComponent\<close>
  decodes it again. For \<^verbatim>\<open>http://h/a%20b.m3u8\<close>, which needs proxying, the result is
  \<^verbatim>\<open>http://h/a b.m3u8\<close>; for \<^verbatim>\<open>http://h/100%.m3u8\<close> the second decoding throws and the
  result is \<^verbatim>\<open>null\<close>.
\<close>

theorem round_trip_decodes_twice:
  "needsProxying ''http://h/a%20b.m3u8''
   \<and> getProxiedUrl ''http://h/a%20b.m3u8''
     = ''/api/m3u8-proxy?url=http%3A%2F%2Fh%2Fa%2520b.m3u8''
   \<and> getOriginalUrl (getProxiedUrl ''http://h/a%20b.m3u8'')
     = Covered (Some ''http://h/a b.m3u8'')
   \<and> needsProxying ''http://h/100%.m3u8''
   \<and> getOriginalUrl (getProxiedUrl ''http://h/100%.m3u8'') = Covered None"
  by code_simp

section \<open>Properties of the catalogue parser\<close>





section \<open>Properties of the failover handler\<close>



end
